theory Spec2Isabelle
  imports Complex_Main
begin

section \<open>Kora rent reclaim bot: utilities (utils/helpers.ts)\<close>

text \<open>
  JavaScript values thrown by the code.  \<open>Error m\<close> is an \<open>Error\<close> instance with message
  \<open>m\<close>; \<open>TokenAccountNotFoundError\<close> is the subclass of the SPL token library that
  \<open>reclaimTokenAccountRent\<close> tests with \<open>instanceof\<close>; \<open>TypeError\<close> is what reading
  \<open>.message\<close> of \<open>undefined\<close> raises; \<open>Undefined\<close> is the value of \<open>throw lastError\<close>
  when no attempt was made.
\<close>

datatype exn = Error string | TokenAccountNotFoundError string | TypeError string | Undefined

fun message :: "exn \<Rightarrow> string option" where
  "message (Error m) = Some m"
| "message (TokenAccountNotFoundError m) = Some m"
| "message (TypeError m) = Some m"
| "message Undefined = None"

text \<open>\<open>err instanceof Error ? err.message : String(err)\<close>\<close>

fun errorText :: "exn \<Rightarrow> string" where
  "errorText Undefined = ''undefined''"
| "errorText (Error m) = m"
| "errorText (TokenAccountNotFoundError m) = m"
| "errorText (TypeError m) = m"

subsection \<open>The outside world: clock and timers\<close>

text \<open>
  The argument of \<open>setTimeout\<close>: a finite number of milliseconds, or \<open>Infinity\<close>
  (a division by a zero refill rate).
\<close>

datatype duration = Ms int | Infinity

text \<open>
  Everything outside the process is a world \<open>'w\<close>.  \<open>now\<close> is \<open>Date.now()\<close> in
  milliseconds, \<open>setTimeout d\<close> is the world after a timer of \<open>d\<close> has fired.
\<close>

record 'w clock =
  now :: "'w \<Rightarrow> int"
  setTimeout :: "duration \<Rightarrow> 'w \<Rightarrow> 'w"

text \<open>
  The instruction of a transaction: \<open>createCloseAccountInstruction(account, destination,
  authority, [], programId)\<close> or \<open>SystemProgram.transfer({fromPubkey, toPubkey, lamports})\<close>.
\<close>

datatype instruction =
    CloseAccountInstruction string string string string
  | TransferInstruction string string int

text \<open>Requests sent to the RPC node, as they appear in the trace.\<close>

datatype request =
    GetSignaturesForAddress "string option" int
  | GetParsedTransaction string
  | GetAccountInfo string
  | GetMinimumBalanceForRentExemption int
  | GetTokenAccount string string
  | SendAndConfirmTransaction instruction

text \<open>
  The trace records, in order, every token taken from the rate limiter, every suspension
  and every request sent to the node.
\<close>

datatype event = Acquire | Sleep duration | Rpc request

record RateLimiter =
  tokens :: rat
  lastRefill :: int
  maxTokens :: rat
  refillRate :: rat

record 'w gstate =
  world :: 'w
  trace :: "event list"
  rateLimiter :: RateLimiter

text \<open>\<open>new RateLimiter(requestsPerSecond)\<close>, built at time \<open>t\<close>.\<close>

definition newRateLimiter :: "int \<Rightarrow> int \<Rightarrow> RateLimiter" where
  "newRateLimiter requestsPerSecond t =
     \<lparr>tokens = of_int requestsPerSecond, lastRefill = t,
      maxTokens = of_int requestsPerSecond, refillRate = of_int requestsPerSecond\<rparr>"

text \<open>\<open>sleep(ms)\<close>: a promise resolved by \<open>setTimeout\<close>.\<close>

definition sleep :: "'w clock \<Rightarrow> duration \<Rightarrow> 'w gstate \<Rightarrow> 'w gstate" where
  "sleep clk d s = s\<lparr>world := setTimeout clk d (world s), trace := trace s @ [Sleep d]\<rparr>"

subsection \<open>RateLimiter\<close>

definition refill :: "'w clock \<Rightarrow> 'w gstate \<Rightarrow> 'w gstate" where
  "refill clk s =
     (let t = now clk (world s);
          rl = rateLimiter s;
          elapsed = of_int (t - lastRefill rl) / 1000
      in s\<lparr>rateLimiter :=
             rl\<lparr>tokens := min (maxTokens rl) (tokens rl + elapsed * refillRate rl),
                lastRefill := t\<rparr>\<rparr>)"

text \<open>\<open>this.tokens -= 1\<close>; the trace notes the token taken.\<close>

definition takeToken :: "'w gstate \<Rightarrow> 'w gstate" where
  "takeToken s =
     s\<lparr>rateLimiter := (rateLimiter s)\<lparr>tokens := tokens (rateLimiter s) - 1\<rparr>,
       trace := trace s @ [Acquire]\<rparr>"

text \<open>\<open>Math.ceil((1 - this.tokens) / this.refillRate * 1000)\<close>, for \<open>tokens < 1\<close>.\<close>

definition waitTime :: "RateLimiter \<Rightarrow> duration" where
  "waitTime rl =
     (if refillRate rl = 0 then Infinity
      else Ms \<lceil>(1 - tokens rl) / refillRate rl * 1000\<rceil>)"

definition acquire :: "'w clock \<Rightarrow> 'w gstate \<Rightarrow> 'w gstate" where
  "acquire clk s =
     (let s1 = refill clk s
      in if tokens (rateLimiter s1) \<ge> 1 then takeToken s1
         else takeToken (refill clk (sleep clk (waitTime (rateLimiter s1)) s1)))"

subsection \<open>withRetry\<close>

record RetryOptions =
  maxAttempts :: int
  initialDelayMs :: int
  maxDelayMs :: int
  backoffMultiplier :: int
  retryableErrors :: "string list option"

definition DEFAULT_RETRY_OPTIONS :: RetryOptions where
  "DEFAULT_RETRY_OPTIONS =
     \<lparr>maxAttempts = 3, initialDelayMs = 1000, maxDelayMs = 30000, backoffMultiplier = 2,
      retryableErrors = Some [''ECONNRESET'', ''ETIMEDOUT'', ''ENOTFOUND'', ''429'', ''503'',
        ''502'', ''504'', ''rate limit'', ''timeout'']\<rparr>"

text \<open>\<open>String.prototype.toLowerCase\<close> on ASCII text.\<close>

definition lowerChar :: "char \<Rightarrow> char" where
  "lowerChar c =
     (let n = (of_char c :: nat)
      in if 65 \<le> n \<and> n \<le> 90 then char_of (n + 32) else c)"

definition toLowerCase :: "string \<Rightarrow> string" where
  "toLowerCase s = map lowerChar s"

text \<open>\<open>s.includes(e)\<close>: \<open>e\<close> occurs in \<open>s\<close> as a contiguous substring.\<close>

fun startsWith :: "string \<Rightarrow> string \<Rightarrow> bool" where
  "startsWith s [] = True"
| "startsWith [] (c # e) = False"
| "startsWith (d # s) (c # e) = (d = c \<and> startsWith s e)"

fun includesStr :: "string \<Rightarrow> string \<Rightarrow> bool" where
  "includesStr [] e = (e = [])"
| "includesStr (c # s) e = (startsWith (c # s) e \<or> includesStr s e)"

text \<open>
  \<open>opts.retryableErrors?.some(e => errorMessage.includes(e.toLowerCase()))\<close>, where
  \<open>errorMessage\<close> is the lower-cased message; an absent list gives \<open>undefined\<close>, which the
  test \<open>!isRetryable\<close> treats as false.
\<close>

definition isRetryable :: "RetryOptions \<Rightarrow> string \<Rightarrow> bool" where
  "isRetryable opts m =
     (case retryableErrors opts of
        None \<Rightarrow> False
      | Some es \<Rightarrow> list_ex (\<lambda>e. includesStr (toLowerCase m) (toLowerCase e)) es)"

text \<open>
  The \<open>for\<close> loop of \<open>withRetry\<close>; \<open>fn\<close> is an effectful computation on the state.  The
  options are the ones merged with the defaults.  A thrown value without a \<open>message\<close>
  makes the \<open>catch\<close> block itself raise a \<open>TypeError\<close>.
\<close>

function retryLoop ::
  "'w clock \<Rightarrow> ('w gstate \<Rightarrow> (exn + 'a) \<times> 'w gstate) \<Rightarrow> RetryOptions \<Rightarrow>
   int \<Rightarrow> int \<Rightarrow> exn \<Rightarrow> 'w gstate \<Rightarrow> (exn + 'a) \<times> 'w gstate" where
  "retryLoop clk fn opts attempt delay lastError s =
     (if attempt \<le> maxAttempts opts then
        (case fn s of
           (Inr v, s1) \<Rightarrow> (Inr v, s1)
         | (Inl e, s1) \<Rightarrow>
             (case message e of
                None \<Rightarrow> (Inl (TypeError ''Cannot read properties of undefined''), s1)
              | Some m \<Rightarrow>
                  if \<not> isRetryable opts m \<or> attempt = maxAttempts opts then (Inl e, s1)
                  else retryLoop clk fn opts (attempt + 1)
                         (min (delay * backoffMultiplier opts) (maxDelayMs opts)) e
                         (sleep clk (Ms delay) s1)))
      else (Inl lastError, s))"
  by pat_completeness auto
termination
  by (relation "measure (\<lambda>(clk, fn, opts, attempt, delay, lastError, s).
        nat (maxAttempts opts + 1 - attempt))") auto

definition withRetry ::
  "'w clock \<Rightarrow> ('w gstate \<Rightarrow> (exn + 'a) \<times> 'w gstate) \<Rightarrow> RetryOptions \<Rightarrow>
   'w gstate \<Rightarrow> (exn + 'a) \<times> 'w gstate" where
  "withRetry clk fn opts s = retryLoop clk fn opts 1 (initialDelayMs opts) Undefined s"


section \<open>Data model (types)\<close>

datatype AccountStatus = ACTIVE | EMPTY | CLOSED | RECLAIMED | PROTECTED | ERROR

datatype AccountType = SYSTEM | TOKEN | TOKEN_2022 | ATA | PDA | UNKNOWN

text \<open>
  \<open>SponsoredAccount\<close>.  Dates are milliseconds since the epoch; an optional field is an
  \<open>option\<close>.  A row of the table \<open>sponsored_accounts\<close> has the same fields under their
  column names (\<open>rent_exempt_minimum\<close>, \<open>closed_at\<close>, \<open>reclaimed_at\<close>, ...), its dates
  written as ISO strings, which order as the dates do; \<open>metadata\<close> is the JSON text.
\<close>

record SponsoredAccount =
  pubkey :: string
  type :: AccountType
  status :: AccountStatus
  lamports :: int
  rentExemptMinimum :: int
  owner :: string
  creationTxSignature :: string
  creationSlot :: int
  createdAt :: int
  lastCheckedAt :: int
  closedAt :: "int option"
  reclaimedAt :: "int option"
  reclaimTxSignature :: "string option"
  reclaimedAmount :: "int option"
  errorMessage :: "string option"
  metadata :: "string option"

text \<open>
  The error detail of a reclaim result.  Each constructor is one message template of the
  source, with the values the template interpolates:
  \<^item> \<open>AccountTooRecent age min\<close>: \<open>Account too recent (${age.toFixed(1)} days < ${min} days)\<close>
  \<^item> \<open>BelowMinimumReclaim r m\<close>: \<open>Below minimum reclaim (${r} < ${m})\<close>
  \<^item> \<open>ProgramNotAllowed p\<close>: \<open>Program not allowed: ${p}\<close>
  \<^item> \<open>AccountRevived\<close>: \<open>Account was revived - not closed\<close>
  \<^item> \<open>UnsupportedAccountType t\<close>: \<open>Unsupported account type: ${t}\<close>
  \<^item> \<open>AlreadyClosed\<close>: \<open>Account does not exist (already closed)\<close>
  \<^item> \<open>NotATokenAccount t\<close>: \<open>Not a token account (type: ${t})\<close>
  \<^item> \<open>TokenAccountNotFound\<close>: \<open>Token account not found or invalid\<close>
  \<^item> \<open>NoCloseAuthority\<close>: \<open>Operator does not have close authority for this account\<close>
  \<^item> \<open>NonZeroBalance n\<close>: \<open>Token account has non-zero balance: ${n}\<close>
  \<^item> \<open>DoesNotExist\<close>: \<open>Account does not exist\<close>
  \<^item> \<open>NotASystemAccount t\<close>: \<open>Not a system account (type: ${t})\<close>
  \<^item> \<open>NotOwner\<close>: \<open>Operator does not own this account\<close>
  \<^item> \<open>Message m\<close>: the text \<open>m\<close> of a caught exception.
\<close>

datatype detail =
    AccountTooRecent rat int
  | BelowMinimumReclaim int int
  | ProgramNotAllowed string
  | AccountRevived
  | UnsupportedAccountType AccountType
  | AlreadyClosed
  | NotATokenAccount AccountType
  | TokenAccountNotFound
  | NoCloseAuthority
  | NonZeroBalance int
  | DoesNotExist
  | NotASystemAccount AccountType
  | NotOwner
  | Message string

text \<open>A row of \<open>reclaim_history\<close> (the ReclaimAttempt record); \<open>id\<close> is its position.\<close>

record ReclaimAttempt =
  account_pubkey :: string
  tx_signature :: "string option"
  attempt_amount :: int
  attempt_success :: bool
  dry_run :: bool
  error_message :: "detail option"
  created_at :: int

record ReclaimResult =
  success :: bool
  account :: string
  amount :: int
  signature :: "string option"
  error :: "detail option"
  dryRun :: bool
  timestamp :: int

record BotConfig =
  koraFeePayer :: string
  treasuryPubkey :: "string option"
  minAccountAgeDays :: int
  minReclaimLamports :: int
  maxBatchSize :: int
  allowedPrograms :: "string list"
  blockedPrograms :: "string list"
  rpcRateLimit :: int
  txDelayMs :: int

section \<open>Ledger store (services/database.ts)\<close>

text \<open>
  The store, once \<open>initialize\<close> has run: the rows of \<open>sponsored_accounts\<close> and of
  \<open>reclaim_history\<close> in insertion order, and the key-value table \<open>bot_state\<close>.
\<close>

record Database =
  sponsored_accounts :: "SponsoredAccount list"
  reclaim_history :: "ReclaimAttempt list"
  bot_state :: "string \<rightharpoonup> string"

text \<open>JavaScript's \<open>x || null\<close> on a string and on a number.\<close>

fun truthyStr :: "string option \<Rightarrow> string option" where
  "truthyStr None = None"
| "truthyStr (Some s) = (if s = [] then None else Some s)"

fun truthyNum :: "int option \<Rightarrow> int option" where
  "truthyNum None = None"
| "truthyNum (Some n) = (if n = 0 then None else Some n)"

text \<open>SQL's \<open>COALESCE(?, column)\<close>.\<close>

fun COALESCE :: "'a option \<Rightarrow> 'a option \<Rightarrow> 'a option" where
  "COALESCE (Some v) old = Some v"
| "COALESCE None old = old"

definition rowToAccount :: "SponsoredAccount \<Rightarrow> SponsoredAccount" where
  "rowToAccount row =
     row\<lparr>reclaimTxSignature := truthyStr (reclaimTxSignature row),
         reclaimedAmount := truthyNum (reclaimedAmount row),
         errorMessage := truthyStr (errorMessage row),
         metadata := truthyStr (metadata row)\<rparr>"

definition getAccount :: "string \<Rightarrow> Database \<Rightarrow> SponsoredAccount option" where
  "getAccount pk d =
     (case filter (\<lambda>row. pubkey row = pk) (sponsored_accounts d) of
        [] \<Rightarrow> None
      | row # _ \<Rightarrow> Some (rowToAccount row))"

text \<open>The \<open>UPDATE\<close> statement of \<open>upsertAccount\<close>, on one row.\<close>

definition upsertUpdateRow :: "SponsoredAccount \<Rightarrow> SponsoredAccount \<Rightarrow> SponsoredAccount" where
  "upsertUpdateRow a row =
     row\<lparr>status := status a,
         lamports := lamports a,
         lastCheckedAt := lastCheckedAt a,
         closedAt := COALESCE (closedAt a) (closedAt row),
         reclaimedAt := COALESCE (reclaimedAt a) (reclaimedAt row),
         reclaimTxSignature := COALESCE (truthyStr (reclaimTxSignature a)) (reclaimTxSignature row),
         reclaimedAmount := COALESCE (truthyNum (reclaimedAmount a)) (reclaimedAmount row),
         errorMessage := truthyStr (errorMessage a)\<rparr>"

text \<open>The row written by the \<open>INSERT\<close> statement of \<open>upsertAccount\<close>.\<close>

definition upsertInsertRow :: "SponsoredAccount \<Rightarrow> SponsoredAccount" where
  "upsertInsertRow a =
     a\<lparr>reclaimTxSignature := truthyStr (reclaimTxSignature a),
       reclaimedAmount := truthyNum (reclaimedAmount a),
       errorMessage := truthyStr (errorMessage a)\<rparr>"

definition upsertAccount :: "SponsoredAccount \<Rightarrow> Database \<Rightarrow> Database" where
  "upsertAccount a d =
     (case getAccount (pubkey a) d of
        Some existing \<Rightarrow>
          d\<lparr>sponsored_accounts :=
              map (\<lambda>row. if pubkey row = pubkey a then upsertUpdateRow a row else row)
                (sponsored_accounts d)\<rparr>
      | None \<Rightarrow>
          d\<lparr>sponsored_accounts := sponsored_accounts d @ [upsertInsertRow a]\<rparr>)"


text \<open>The sort key of \<open>ORDER BY closed_at ASC\<close>, on rows whose \<open>closed_at\<close> is set.\<close>

definition closedAtKey :: "SponsoredAccount \<Rightarrow> int" where
  "closedAtKey row = (case closedAt row of None \<Rightarrow> 0 | Some c \<Rightarrow> c)"



text \<open>
  The fields of \<open>additionalFields\<close> that \<open>updateAccountStatus\<close> reads.  A field is
  \<open>None\<close> when the statement does not set its column.
\<close>

record AccountPatch =
  p_lamports :: "int option"
  p_closedAt :: "int option"
  p_reclaimedAt :: "int option"
  p_reclaimTxSignature :: "string option"
  p_reclaimedAmount :: "int option"
  p_errorMessage :: "string option"

definition noPatch :: AccountPatch where
  "noPatch = \<lparr>p_lamports = None, p_closedAt = None, p_reclaimedAt = None,
     p_reclaimTxSignature = None, p_reclaimedAmount = None, p_errorMessage = None\<rparr>"

definition setOpt :: "'a option \<Rightarrow> 'a \<Rightarrow> 'a" where
  "setOpt new old = (case new of None \<Rightarrow> old | Some v \<Rightarrow> v)"

definition patchRow :: "int \<Rightarrow> AccountStatus \<Rightarrow> AccountPatch \<Rightarrow> SponsoredAccount \<Rightarrow> SponsoredAccount" where
  "patchRow t st p row =
     row\<lparr>status := st,
         lastCheckedAt := t,
         lamports := setOpt (p_lamports p) (lamports row),
         closedAt := COALESCE (p_closedAt p) (closedAt row),
         reclaimedAt := COALESCE (p_reclaimedAt p) (reclaimedAt row),
         reclaimTxSignature := COALESCE (truthyStr (p_reclaimTxSignature p)) (reclaimTxSignature row),
         reclaimedAmount := COALESCE (p_reclaimedAmount p) (reclaimedAmount row),
         errorMessage := COALESCE (p_errorMessage p) (errorMessage row)\<rparr>"

text \<open>\<open>updateAccountStatus\<close>, called when \<open>Date.now()\<close> is \<open>t\<close>.\<close>

definition updateAccountStatus ::
  "int \<Rightarrow> string \<Rightarrow> AccountStatus \<Rightarrow> AccountPatch \<Rightarrow> Database \<Rightarrow> Database" where
  "updateAccountStatus t pk st p d =
     d\<lparr>sponsored_accounts :=
         map (\<lambda>row. if pubkey row = pk then patchRow t st p row else row)
           (sponsored_accounts d)\<rparr>"

text \<open>The error text stored by \<open>errorMessage || null\<close>.\<close>

fun truthyDetail :: "detail option \<Rightarrow> detail option" where
  "truthyDetail (Some (Message m)) = (if m = [] then None else Some (Message m))"
| "truthyDetail e = e"

definition recordReclaimAttempt ::
  "int \<Rightarrow> string \<Rightarrow> string option \<Rightarrow> int \<Rightarrow> bool \<Rightarrow> bool \<Rightarrow> detail option \<Rightarrow>
   Database \<Rightarrow> Database" where
  "recordReclaimAttempt t accountPubkey txSignature amt ok dry err d =
     d\<lparr>reclaim_history := reclaim_history d @
         [\<lparr>account_pubkey = accountPubkey, tx_signature = txSignature, attempt_amount = amt,
           attempt_success = ok, dry_run = dry, error_message = truthyDetail err,
           created_at = t\<rparr>]\<rparr>"

definition markAsReclaimed :: "int \<Rightarrow> string \<Rightarrow> string option \<Rightarrow> int \<Rightarrow> Database \<Rightarrow> Database" where
  "markAsReclaimed t pk txSignature amt d =
     recordReclaimAttempt t pk txSignature amt True False None
       (updateAccountStatus t pk RECLAIMED
          (noPatch\<lparr>p_reclaimedAt := Some t,
                   p_reclaimTxSignature := truthyStr txSignature,
                   p_reclaimedAmount := Some amt\<rparr>) d)"

definition getLastProcessedSignature :: "Database \<Rightarrow> string option" where
  "getLastProcessedSignature d = bot_state d ''last_processed_signature''"

definition setLastProcessedSignature :: "string \<Rightarrow> Database \<Rightarrow> Database" where
  "setLastProcessedSignature sig d =
     d\<lparr>bot_state := (bot_state d)(''last_processed_signature'' \<mapsto> sig)\<rparr>"


section \<open>Remote gateway (services/solana.ts)\<close>

text \<open>What the node returns: \<open>AccountInfo\<close> (with \<open>data.length\<close>), the token account
  decoded by the SPL library, a signature entry and a parsed transaction.\<close>

record AccountInfo =
  info_lamports :: int
  info_owner :: string
  info_dataLength :: int

record TokenAccountInfo =
  token_owner :: string
  token_closeAuthority :: "string option"
  token_amount :: int

record SignatureInfo =
  sig_signature :: string
  sig_err :: bool

text \<open>An inner instruction: \<open>Parsed ty acc\<close> has \<open>parsed.type = ty\<close> and
  \<open>parsed.info?.account = acc\<close>; \<open>PartiallyDecoded\<close> has no \<open>parsed\<close> field.\<close>

datatype innerInstruction = Parsed string "string option" | PartiallyDecoded

record TransactionMeta =
  preBalances :: "int list"
  postBalances :: "int list"
  innerInstructions :: "innerInstruction list list option"

record ParsedTransaction =
  tx_meta :: "TransactionMeta option"
  tx_accountKeys :: "string list"
  tx_signatures :: "string list"
  tx_blockTime :: "int option"
  tx_slot :: int

text \<open>
  The \<open>Connection\<close>, and \<open>getAccount\<close> and \<open>sendAndConfirmTransaction\<close> of the libraries:
  each call answers or throws, and moves the world on.
\<close>

record 'w connection =
  getSignaturesForAddress ::
    "string \<Rightarrow> string option \<Rightarrow> int \<Rightarrow> 'w \<Rightarrow> (exn + SignatureInfo list) \<times> 'w"
  getParsedTransaction :: "string \<Rightarrow> 'w \<Rightarrow> (exn + ParsedTransaction option) \<times> 'w"
  getAccountInfo :: "string \<Rightarrow> 'w \<Rightarrow> (exn + AccountInfo option) \<times> 'w"
  getMinimumBalanceForRentExemption :: "int \<Rightarrow> 'w \<Rightarrow> (exn + int) \<times> 'w"
  getTokenAccount :: "string \<Rightarrow> string \<Rightarrow> 'w \<Rightarrow> (exn + TokenAccountInfo) \<times> 'w"
  sendAndConfirmTransaction :: "instruction \<Rightarrow> 'w \<Rightarrow> (exn + string) \<times> 'w"

text \<open>A network call: the request is noted in the trace, the world answers.\<close>

definition rpc ::
  "request \<Rightarrow> ('w \<Rightarrow> (exn + 'a) \<times> 'w) \<Rightarrow> 'w gstate \<Rightarrow> (exn + 'a) \<times> 'w gstate" where
  "rpc req f s =
     (case f (world s) of (r, w) \<Rightarrow> (r, s\<lparr>world := w, trace := trace s @ [Rpc req]\<rparr>))"

text \<open>
  The fields of a \<open>SolanaService\<close>; \<open>operatorKeypair\<close> is the operator's public key.
  Public keys are base58 strings, taken to be well formed.
\<close>

record 'w SolanaService =
  runtime :: "'w clock"
  connection :: "'w connection"
  operatorKeypair :: string
  config :: BotConfig

text \<open>The program ids of \<open>KNOWN_PROGRAMS\<close>, as the libraries define them.\<close>

definition SYSTEM_PROGRAM_ID :: string where
  "SYSTEM_PROGRAM_ID = ''11111111111111111111111111111111''"

definition TOKEN_PROGRAM_ID :: string where
  "TOKEN_PROGRAM_ID = ''TokenkegQfeZyiNwAJbNbGKPFXCWuBvf9Ss623VQ5DA''"

definition TOKEN_2022_PROGRAM_ID :: string where
  "TOKEN_2022_PROGRAM_ID = ''TokenzQdBNbLqP5VEhdkAS6EPFLC1PHnBqCXEpPxuEb''"

definition ASSOCIATED_TOKEN_PROGRAM_ID :: string where
  "ASSOCIATED_TOKEN_PROGRAM_ID = ''ATokenGPvbdGVxr1b2hvZbsiqW5xWH25efTNsLJA8knL''"

definition detectAccountType :: "AccountInfo \<Rightarrow> AccountType" where
  "detectAccountType accountInfo =
     (let ownr = info_owner accountInfo
      in if ownr = SYSTEM_PROGRAM_ID then SYSTEM
         else if ownr = TOKEN_PROGRAM_ID then TOKEN
         else if ownr = TOKEN_2022_PROGRAM_ID then TOKEN_2022
         else if ownr = ASSOCIATED_TOKEN_PROGRAM_ID then ATA
         else if info_dataLength accountInfo > 0 then PDA
         else UNKNOWN)"

definition getRentExemptMinimum ::
  "'w SolanaService \<Rightarrow> int \<Rightarrow> 'w gstate \<Rightarrow> (exn + int) \<times> 'w gstate" where
  "getRentExemptMinimum sol dataSize s =
     withRetry (runtime sol)
       (rpc (GetMinimumBalanceForRentExemption dataSize)
          (getMinimumBalanceForRentExemption (connection sol) dataSize))
       DEFAULT_RETRY_OPTIONS
       (acquire (runtime sol) s)"

record AccountState =
  st_exists :: bool
  st_lamports :: int
  st_owner :: string
  st_type :: AccountType
  st_rentExemptMinimum :: int

definition checkAccountState ::
  "'w SolanaService \<Rightarrow> string \<Rightarrow> 'w gstate \<Rightarrow> (exn + AccountState) \<times> 'w gstate" where
  "checkAccountState sol pk s =
     (case withRetry (runtime sol) (rpc (GetAccountInfo pk) (getAccountInfo (connection sol) pk))
             DEFAULT_RETRY_OPTIONS (acquire (runtime sol) s) of
        (Inl err, s1) \<Rightarrow> (Inl err, s1)
      | (Inr None, s1) \<Rightarrow>
          (Inr \<lparr>st_exists = False, st_lamports = 0, st_owner = [], st_type = UNKNOWN,
                st_rentExemptMinimum = 0\<rparr>, s1)
      | (Inr (Some accountInfo), s1) \<Rightarrow>
          (case getRentExemptMinimum sol (info_dataLength accountInfo) s1 of
             (Inl err, s2) \<Rightarrow> (Inl err, s2)
           | (Inr rentExempt, s2) \<Rightarrow>
               (Inr \<lparr>st_exists = True, st_lamports = info_lamports accountInfo,
                     st_owner = info_owner accountInfo,
                     st_type = detectAccountType accountInfo,
                     st_rentExemptMinimum = rentExempt\<rparr>, s2)))"

text \<open>The object \<open>{success, signature?, amount?, error?}\<close> the reclaim operations return.\<close>

record Outcome =
  r_success :: bool
  r_signature :: "string option"
  r_amount :: "int option"
  r_error :: "detail option"

definition failed :: "detail \<Rightarrow> Outcome" where
  "failed e = \<lparr>r_success = False, r_signature = None, r_amount = None, r_error = Some e\<rparr>"

text \<open>The submission shared by both reclaim operations: one token, then the transaction
  under \<open>withRetry\<close>; a failure is caught by the operation's \<open>catch\<close>.\<close>

definition submit ::
  "'w SolanaService \<Rightarrow> instruction \<Rightarrow> int \<Rightarrow> 'w gstate \<Rightarrow> Outcome \<times> 'w gstate" where
  "submit sol ix amt s =
     (case withRetry (runtime sol)
             (rpc (SendAndConfirmTransaction ix) (sendAndConfirmTransaction (connection sol) ix))
             DEFAULT_RETRY_OPTIONS (acquire (runtime sol) s) of
        (Inl err, s1) \<Rightarrow> (failed (Message (errorText err)), s1)
      | (Inr sig, s1) \<Rightarrow>
          (\<lparr>r_success = True, r_signature = Some sig, r_amount = Some amt, r_error = None\<rparr>, s1))"

definition reclaimTokenAccountRent ::
  "'w SolanaService \<Rightarrow> string \<Rightarrow> string \<Rightarrow> string \<Rightarrow> bool \<Rightarrow> 'w gstate \<Rightarrow>
   Outcome \<times> 'w gstate" where
  "reclaimTokenAccountRent sol tokenAccountPubkey destinationPubkey programId dry s =
     (case checkAccountState sol tokenAccountPubkey s of
        (Inl err, s1) \<Rightarrow> (failed (Message (errorText err)), s1)
      | (Inr accountState, s1) \<Rightarrow>
          if \<not> st_exists accountState then (failed AlreadyClosed, s1)
          else if st_type accountState \<noteq> TOKEN \<and> st_type accountState \<noteq> TOKEN_2022 \<and>
                  st_type accountState \<noteq> ATA
          then (failed (NotATokenAccount (st_type accountState)), s1)
          else
            (case rpc (GetTokenAccount tokenAccountPubkey programId)
                    (getTokenAccount (connection sol) tokenAccountPubkey programId) s1 of
               (Inl (TokenAccountNotFoundError m), s2) \<Rightarrow> (failed TokenAccountNotFound, s2)
             | (Inl err, s2) \<Rightarrow> (failed (Message (errorText err)), s2)
             | (Inr tokenAccountInfo, s2) \<Rightarrow>
                 if \<not> (token_owner tokenAccountInfo = operatorKeypair sol \<or>
                        token_closeAuthority tokenAccountInfo = Some (operatorKeypair sol))
                 then (failed NoCloseAuthority, s2)
                 else if token_amount tokenAccountInfo > 0
                 then (failed (NonZeroBalance (token_amount tokenAccountInfo)), s2)
                 else if dry
                 then (\<lparr>r_success = True, r_signature = None,
                         r_amount = Some (st_lamports accountState), r_error = None\<rparr>, s2)
                 else submit sol
                        (CloseAccountInstruction tokenAccountPubkey destinationPubkey
                           (operatorKeypair sol) programId)
                        (st_lamports accountState) s2))"

definition closeSystemAccount ::
  "'w SolanaService \<Rightarrow> string \<Rightarrow> string \<Rightarrow> bool \<Rightarrow> 'w gstate \<Rightarrow> Outcome \<times> 'w gstate" where
  "closeSystemAccount sol accountPubkey destinationPubkey dry s =
     (case checkAccountState sol accountPubkey s of
        (Inl err, s1) \<Rightarrow> (failed (Message (errorText err)), s1)
      | (Inr accountState, s1) \<Rightarrow>
          if \<not> st_exists accountState then (failed DoesNotExist, s1)
          else if st_type accountState \<noteq> SYSTEM
          then (failed (NotASystemAccount (st_type accountState)), s1)
          else if st_owner accountState \<noteq> operatorKeypair sol then (failed NotOwner, s1)
          else if dry
          then (\<lparr>r_success = True, r_signature = None,
                  r_amount = Some (st_lamports accountState), r_error = None\<rparr>, s1)
          else submit sol
                 (TransferInstruction accountPubkey destinationPubkey (st_lamports accountState))
                 (st_lamports accountState) s1)"

definition isProgramAllowed :: "BotConfig \<Rightarrow> string \<Rightarrow> bool" where
  "isProgramAllowed cfg programId =
     (if length (allowedPrograms cfg) = 0
      then \<not> list_ex (\<lambda>p. p = programId) (blockedPrograms cfg)
      else list_ex (\<lambda>p. p = programId) (allowedPrograms cfg) \<and>
           \<not> list_ex (\<lambda>p. p = programId) (blockedPrograms cfg))"


text \<open>The loop of \<open>scanSponsoredTransactions\<close> over the signatures of a page: a failed
  transaction is skipped, a fetch that throws or finds nothing is skipped as well.\<close>

fun fetchTransactions ::
  "'w SolanaService \<Rightarrow> SignatureInfo list \<Rightarrow> ParsedTransaction list \<Rightarrow> 'w gstate \<Rightarrow>
   ParsedTransaction list \<times> 'w gstate" where
  "fetchTransactions sol [] transactions s = (transactions, s)"
| "fetchTransactions sol (sigInfo # rest) transactions s =
     (if sig_err sigInfo then fetchTransactions sol rest transactions s
      else
        (case withRetry (runtime sol)
                (rpc (GetParsedTransaction (sig_signature sigInfo))
                   (getParsedTransaction (connection sol) (sig_signature sigInfo)))
                DEFAULT_RETRY_OPTIONS (acquire (runtime sol) s) of
           (Inr (Some tx), s1) \<Rightarrow> fetchTransactions sol rest (transactions @ [tx]) s1
         | (Inr None, s1) \<Rightarrow> fetchTransactions sol rest transactions s1
         | (Inl err, s1) \<Rightarrow> fetchTransactions sol rest transactions s1))"

definition scanSponsoredTransactions ::
  "'w SolanaService \<Rightarrow> string option \<Rightarrow> int \<Rightarrow> 'w gstate \<Rightarrow>
   (exn + ParsedTransaction list \<times> string option) \<times> 'w gstate" where
  "scanSponsoredTransactions sol beforeSignature limit s =
     (case withRetry (runtime sol)
             (rpc (GetSignaturesForAddress beforeSignature limit)
                (getSignaturesForAddress (connection sol) (koraFeePayer (config sol))
                   beforeSignature limit))
             DEFAULT_RETRY_OPTIONS (acquire (runtime sol) s) of
        (Inl err, s1) \<Rightarrow> (Inl err, s1)
      | (Inr signatures, s1) \<Rightarrow>
          if length signatures = 0 then (Inr ([], None), s1)
          else
            (case fetchTransactions sol signatures [] s1 of
               (transactions, s2) \<Rightarrow>
                 (Inr (transactions, truthyStr (Some (sig_signature (last signatures)))), s2)))"

text \<open>\<open>xs[i]\<close>, \<open>undefined\<close> out of range.\<close>

definition nthOpt :: "'a list \<Rightarrow> nat \<Rightarrow> 'a option" where
  "nthOpt xs i = (if i < length xs then Some (xs ! i) else None)"

text \<open>The inner-instruction pass of \<open>extractCreatedAccounts\<close>.\<close>

definition addInitialized :: "innerInstruction \<Rightarrow> string list \<Rightarrow> string list" where
  "addInitialized ix createdAccounts =
     (case ix of
        Parsed ty (Some acc) \<Rightarrow>
          if ty = ''initializeAccount'' \<and> acc \<noteq> [] \<and> acc \<notin> set createdAccounts
          then createdAccounts @ [acc] else createdAccounts
      | _ \<Rightarrow> createdAccounts)"

definition extractCreatedAccounts :: "BotConfig \<Rightarrow> ParsedTransaction \<Rightarrow> string list" where
  "extractCreatedAccounts cfg tx =
     (case tx_meta tx of
        None \<Rightarrow> []
      | Some meta \<Rightarrow>
          (let accountKeys = tx_accountKeys tx;
               byBalance =
                 map fst
                   (filter (\<lambda>(pk, i).
                        nthOpt (preBalances meta) i = Some 0 \<and>
                        (case nthOpt (postBalances meta) i of None \<Rightarrow> False | Some b \<Rightarrow> b > 0) \<and>
                        pk \<noteq> koraFeePayer cfg)
                      (zip accountKeys [0 ..< length accountKeys]))
           in case innerInstructions meta of
                None \<Rightarrow> byBalance
              | Some inner \<Rightarrow> fold addInitialized (concat inner) byBalance))"

section \<open>Reclaim engine (services/reclaim.ts)\<close>

text \<open>\<open>ageInDays(timestamp)\<close> for a \<open>Date\<close>, when \<open>Date.now()\<close> is \<open>t\<close>.\<close>

definition ageInDays :: "int \<Rightarrow> int \<Rightarrow> rat" where
  "ageInDays t ts = of_int (t - ts) / (1000 * 60 * 60 * 24)"

definition rejected :: "SponsoredAccount \<Rightarrow> detail \<Rightarrow> bool \<Rightarrow> int \<Rightarrow> ReclaimResult" where
  "rejected acct e dry t =
     \<lparr>success = False, account = pubkey acct, amount = 0, signature = None, error = Some e,
      dryRun = dry, timestamp = t\<rparr>"

text \<open>The \<open>switch\<close> on the account type.\<close>

definition dispatch ::
  "'w SolanaService \<Rightarrow> SponsoredAccount \<Rightarrow> string \<Rightarrow> bool \<Rightarrow> 'w gstate \<Rightarrow> Outcome \<times> 'w gstate" where
  "dispatch sol acct destination dry s =
     (case type acct of
        TOKEN \<Rightarrow> reclaimTokenAccountRent sol (pubkey acct) destination TOKEN_PROGRAM_ID dry s
      | TOKEN_2022 \<Rightarrow>
          reclaimTokenAccountRent sol (pubkey acct) destination TOKEN_2022_PROGRAM_ID dry s
      | ATA \<Rightarrow> reclaimTokenAccountRent sol (pubkey acct) destination TOKEN_PROGRAM_ID dry s
      | SYSTEM \<Rightarrow> closeSystemAccount sol (pubkey acct) destination dry s
      | _ \<Rightarrow> (failed (UnsupportedAccountType (type acct)), s))"

text \<open>The bookkeeping of \<open>reclaimAccount\<close> after the dispatch (\<open>// Update database\<close>).\<close>

definition bookkeeping ::
  "int \<Rightarrow> SponsoredAccount \<Rightarrow> bool \<Rightarrow> Outcome \<Rightarrow> Database \<Rightarrow> Database" where
  "bookkeeping t acct dry result d =
     (if r_success result then
        (if \<not> dry then
           markAsReclaimed t (pubkey acct) (truthyStr (r_signature result))
             (case truthyNum (r_amount result) of
                Some a \<Rightarrow> a | None \<Rightarrow> rentExemptMinimum acct) d
         else d)
      else recordReclaimAttempt t (pubkey acct) None 0 False dry (r_error result) d)"

text \<open>The age check: the measured age when \<open>closedAt\<close> is set and the age is below the
  configured minimum, \<open>None\<close> when the check passes.\<close>

definition tooRecent :: "int \<Rightarrow> BotConfig \<Rightarrow> SponsoredAccount \<Rightarrow> rat option" where
  "tooRecent t cfg acct =
     (case closedAt acct of
        None \<Rightarrow> None
      | Some c \<Rightarrow>
          if ageInDays t c < of_int (minAccountAgeDays cfg) then Some (ageInDays t c) else None)"

text \<open>
  \<open>reclaimAccount\<close>.  The re-check \<open>checkAccountState\<close> is outside the \<open>try\<close> block: when
  it throws, so does \<open>reclaimAccount\<close>.
\<close>

definition reclaimAccount ::
  "'w SolanaService \<Rightarrow> SponsoredAccount \<Rightarrow> string \<Rightarrow> bool \<Rightarrow> 'w gstate \<Rightarrow> Database \<Rightarrow>
   (exn + ReclaimResult) \<times> 'w gstate \<times> Database" where
  "reclaimAccount sol acct destination dry s d =
     (let t = now (runtime sol) (world s); cfg = config sol
      in case tooRecent t cfg acct of
           Some age \<Rightarrow>
             (Inr (rejected acct (AccountTooRecent age (minAccountAgeDays cfg)) dry t), s, d)
         | None \<Rightarrow>
             if rentExemptMinimum acct < minReclaimLamports cfg
             then (Inr (rejected acct
                     (BelowMinimumReclaim (rentExemptMinimum acct) (minReclaimLamports cfg))
                     dry t), s, d)
             else if \<not> isProgramAllowed cfg (owner acct)
             then (Inr (rejected acct (ProgramNotAllowed (owner acct)) dry t), s,
                   updateAccountStatus t (pubkey acct) PROTECTED noPatch d)
             else
               (case checkAccountState sol (pubkey acct) s of
                  (Inl err, s1) \<Rightarrow> (Inl err, s1, d)
                | (Inr currentState, s1) \<Rightarrow>
                    if st_exists currentState
                    then (Inr (rejected acct AccountRevived dry t), s1,
                          updateAccountStatus (now (runtime sol) (world s1)) (pubkey acct) ACTIVE
                            (noPatch\<lparr>p_lamports := Some (st_lamports currentState)\<rparr>) d)
                    else
                      (case dispatch sol acct destination dry s1 of
                         (result, s2) \<Rightarrow>
                           (Inr \<lparr>success = r_success result, account = pubkey acct,
                                 amount = (case truthyNum (r_amount result) of
                                             Some a \<Rightarrow> a | None \<Rightarrow> 0),
                                 signature = r_signature result, error = r_error result,
                                 dryRun = dry, timestamp = t\<rparr>,
                            s2,
                            bookkeeping (now (runtime sol) (world s2)) acct dry result d))))"

section \<open>Discovery (services/monitor.ts)\<close>

text \<open>
  The \<open>SponsoredAccount\<close> built for a newly discovered handle \<open>pk\<close> from the state just
  checked, the first signature and the slot of the creating transaction and its block
  time; \<open>t\<close> is \<open>new Date()\<close>.
\<close>

definition discoveredAccount ::
  "string \<Rightarrow> AccountState \<Rightarrow> string \<Rightarrow> int \<Rightarrow> int \<Rightarrow> int \<Rightarrow> SponsoredAccount" where
  "discoveredAccount pk state sig slot blockTime t =
     \<lparr>pubkey = pk, type = st_type state,
      status = (if st_exists state then ACTIVE else CLOSED),
      lamports = st_lamports state,
      rentExemptMinimum = st_rentExemptMinimum state,
      owner = (if st_owner state = [] then ''unknown'' else st_owner state),
      creationTxSignature = sig, creationSlot = slot,
      createdAt = blockTime * 1000,
      lastCheckedAt = t,
      closedAt = (if st_exists state then None else Some t),
      reclaimedAt = None, reclaimTxSignature = None,
      reclaimedAmount = None, errorMessage = None, metadata = None\<rparr>"

text \<open>
  The inner loop of \<open>discoverNewAccounts\<close> over the accounts created by one transaction.
  A handle already in the store is skipped; a state check that throws is logged and
  skipped; a transaction without a signature cannot be inserted (\<open>creation_tx_signature\<close>
  is \<open>NOT NULL\<close>), which the same \<open>catch\<close> swallows.
\<close>

fun discoverAccounts ::
  "'w SolanaService \<Rightarrow> ParsedTransaction \<Rightarrow> string list \<Rightarrow> int \<Rightarrow> 'w gstate \<Rightarrow> Database \<Rightarrow>
   int \<times> 'w gstate \<times> Database" where
  "discoverAccounts sol tx [] newAccountCount s d = (newAccountCount, s, d)"
| "discoverAccounts sol tx (pk # rest) newAccountCount s d =
     (case getAccount pk d of
        Some existing \<Rightarrow> discoverAccounts sol tx rest newAccountCount s d
      | None \<Rightarrow>
          (let blockTime =
                 (case truthyNum (tx_blockTime tx) of
                    Some b \<Rightarrow> b | None \<Rightarrow> now (runtime sol) (world s) div 1000)
           in case checkAccountState sol pk s of
                (Inl err, s1) \<Rightarrow> discoverAccounts sol tx rest newAccountCount s1 d
              | (Inr state, s1) \<Rightarrow>
                  (case tx_signatures tx of
                     [] \<Rightarrow> discoverAccounts sol tx rest newAccountCount s1 d
                   | sig # _ \<Rightarrow>
                       discoverAccounts sol tx rest (newAccountCount + 1) s1
                         (upsertAccount
                            (discoveredAccount pk state sig (tx_slot tx) blockTime
                               (now (runtime sol) (world s1))) d))))"

text \<open>The loop over the transactions of a page.\<close>

fun discoverTransactions ::
  "'w SolanaService \<Rightarrow> ParsedTransaction list \<Rightarrow> int \<Rightarrow> 'w gstate \<Rightarrow> Database \<Rightarrow>
   int \<times> 'w gstate \<times> Database" where
  "discoverTransactions sol [] newAccountCount s d = (newAccountCount, s, d)"
| "discoverTransactions sol (tx # rest) newAccountCount s d =
     (case discoverAccounts sol tx (extractCreatedAccounts (config sol) tx) newAccountCount s d of
        (n, s1, d1) \<Rightarrow> discoverTransactions sol rest n s1 d1)"

text \<open>
  The \<open>while (hasMore)\<close> loop.  Nothing bounds the number of pages the node may return, so
  the loop runs on fuel: \<open>None\<close> is a run that has not ended within \<open>fuel\<close> pages.  A run
  that ends either returns the number of new accounts or throws what the scan threw.
\<close>

fun discoverLoop ::
  "nat \<Rightarrow> 'w SolanaService \<Rightarrow> string option \<Rightarrow> int \<Rightarrow> 'w gstate \<Rightarrow> Database \<Rightarrow>
   ((exn + int) \<times> 'w gstate \<times> Database) option" where
  "discoverLoop 0 sol beforeSignature newAccountCount s d = None"
| "discoverLoop (Suc fuel) sol beforeSignature newAccountCount s d =
     (case scanSponsoredTransactions sol beforeSignature 100 s of
        (Inl err, s1) \<Rightarrow> Some (Inl err, s1, d)
      | (Inr (transactions, lastSignature), s1) \<Rightarrow>
          if length transactions = 0 then Some (Inr newAccountCount, s1, d)
          else
            (case discoverTransactions sol transactions newAccountCount s1 d of
               (n, s2, d2) \<Rightarrow>
                 (case lastSignature of
                    Some sig \<Rightarrow>
                      discoverLoop fuel sol (Some sig) n s2 (setLastProcessedSignature sig d2)
                  | None \<Rightarrow> Some (Inr n, s2, d2))))"

definition discoverNewAccounts ::
  "nat \<Rightarrow> 'w SolanaService \<Rightarrow> 'w gstate \<Rightarrow> Database \<Rightarrow>
   ((exn + int) \<times> 'w gstate \<times> Database) option" where
  "discoverNewAccounts fuel sol s d =
     discoverLoop fuel sol (truthyStr (getLastProcessedSignature d)) 0 s d"


section \<open>The retry schedule, as the specification words it\<close>

text \<open>
  The delay slept after the \<open>k\<close>-th failed attempt (counting from 0) when the first delay
  is \<open>d\<close>: it starts at \<open>d\<close> and each further one is
  \<open>min (delay * backoffMultiplier) maxDelayMs\<close>.
\<close>

fun backoff :: "RetryOptions \<Rightarrow> int \<Rightarrow> nat \<Rightarrow> int" where
  "backoff opts d 0 = d"
| "backoff opts d (Suc k) = min (backoff opts d k * backoffMultiplier opts) (maxDelayMs opts)"

text \<open>
  The state in which attempt number \<open>k + 1\<close> starts, when every earlier attempt has failed
  and was retried: the state the previous attempt left, after a sleep of the backoff delay.
\<close>

fun beforeAttempt ::
  "'w clock \<Rightarrow> ('w gstate \<Rightarrow> (exn + 'a) \<times> 'w gstate) \<Rightarrow> RetryOptions \<Rightarrow> int \<Rightarrow>
   'w gstate \<Rightarrow> nat \<Rightarrow> 'w gstate" where
  "beforeAttempt clk fn opts d s 0 = s"
| "beforeAttempt clk fn opts d s (Suc k) =
     sleep clk (Ms (backoff opts d k)) (snd (fn (beforeAttempt clk fn opts d s k)))"

text \<open>An attempt fails with an error whose message matches the retryable set.\<close>

definition retryableFailure :: "RetryOptions \<Rightarrow> (exn + 'a) \<Rightarrow> bool" where
  "retryableFailure opts r =
     (case r of
        Inr v \<Rightarrow> False
      | Inl e \<Rightarrow> (case message e of None \<Rightarrow> False | Some m \<Rightarrow> isRetryable opts m))"

section \<open>Observing the trace\<close>

text \<open>\<open>appended P s s'\<close>: from \<open>s\<close> to \<open>s'\<close> the trace has only grown, and every event
  added satisfies \<open>P\<close>.\<close>

definition appended :: "(event \<Rightarrow> bool) \<Rightarrow> 'w gstate \<Rightarrow> 'w gstate \<Rightarrow> bool" where
  "appended P s s' = (\<exists>es. trace s' = trace s @ es \<and> list_all P es)"

text \<open>A submit call (a transaction sent to the node), and a suspension.\<close>

fun isSubmit :: "event \<Rightarrow> bool" where
  "isSubmit (Rpc (SendAndConfirmTransaction ix)) = True"
| "isSubmit e = False"



section \<open>The safety checks of the reclaim engine\<close>


section \<open>Discovery over an unchanging history\<close>

text \<open>
  The remote state does not change: what the node answers to a request does not depend on
  when it is asked.
\<close>

definition stableNode :: "'w connection \<Rightarrow> bool" where
  "stableNode conn =
     ((\<forall>address before limit w w'.
         fst (getSignaturesForAddress conn address before limit w) =
         fst (getSignaturesForAddress conn address before limit w')) \<and>
      (\<forall>sig w w'. fst (getParsedTransaction conn sig w) = fst (getParsedTransaction conn sig w')) \<and>
      (\<forall>pk w w'. fst (getAccountInfo conn pk w) = fst (getAccountInfo conn pk w')) \<and>
      (\<forall>n w w'.
         fst (getMinimumBalanceForRentExemption conn n w) =
         fst (getMinimumBalanceForRentExemption conn n w')))"

text \<open>The handles the store tracks.\<close>

definition tracked :: "Database \<Rightarrow> string set" where
  "tracked d = pubkey ` set (sponsored_accounts d)"

text \<open>
  A created handle needs no further work: it is tracked, or its state check throws, or the
  transaction carries no signature to record.
\<close>

definition settled :: "'w SolanaService \<Rightarrow> Database \<Rightarrow> ParsedTransaction \<Rightarrow> string \<Rightarrow> bool" where
  "settled sol d tx pk =
     (pk \<in> tracked d \<or> (\<forall>s. isl (fst (checkAccountState sol pk s))) \<or> tx_signatures tx = [])"

text \<open>From \<open>d\<close> to \<open>d'\<close> rows were only appended, the attempt history is the same, and
  keys that were distinct stay distinct.\<close>

definition grown :: "Database \<Rightarrow> Database \<Rightarrow> bool" where
  "grown d d' =
     (reclaim_history d' = reclaim_history d \<and>
      (\<exists>new. sponsored_accounts d' = sponsored_accounts d @ new \<and>
             (distinct (map pubkey (sponsored_accounts d)) \<longrightarrow>
              distinct (map pubkey (sponsored_accounts d')))))"

section \<open>A concrete world for running the model\<close>

text \<open>
  The world is the time in milliseconds; a timer advances it by its delay (by one
  millisecond for a delay that is not finite).  \<open>flaky until msg\<close> throws \<open>msg\<close> while the
  time is below \<open>until\<close> and then returns 42.
\<close>

definition testClock :: "int clock" where
  "testClock = \<lparr>now = (\<lambda>w. w),
     setTimeout = (\<lambda>d w. case d of Ms n \<Rightarrow> w + n | Infinity \<Rightarrow> w + 1)\<rparr>"

definition flaky :: "int \<Rightarrow> string \<Rightarrow> int gstate \<Rightarrow> (exn + int) \<times> int gstate" where
  "flaky until msg s = (if world s < until then (Inl (Error msg), s) else (Inr 42, s))"

definition testState :: "int \<Rightarrow> rat \<Rightarrow> int gstate" where
  "testState t tk = \<lparr>world = t, trace = [],
     rateLimiter = \<lparr>tokens = tk, lastRefill = 0, maxTokens = 10, refillRate = 10\<rparr>\<rparr>"

text \<open>A store: rows closed on days 10, 8 and 18, and an active row.\<close>

definition day :: int where
  "day = 24 * 60 * 60 * 1000"

definition testRow :: "string \<Rightarrow> AccountStatus \<Rightarrow> int option \<Rightarrow> int option \<Rightarrow> SponsoredAccount" where
  "testRow pk st cl rc =
     \<lparr>pubkey = pk, type = TOKEN, status = st, lamports = 0, rentExemptMinimum = 2039280,
      owner = ''TokenkegQfeZyiNwAJbNbGKPFXCWuBvf9Ss623VQ5DA'', creationTxSignature = ''sig'',
      creationSlot = 1, createdAt = 0, lastCheckedAt = 0, closedAt = cl,
      reclaimedAt = rc, reclaimTxSignature = None, reclaimedAmount = None,
      errorMessage = None, metadata = None\<rparr>"

definition testDb :: "SponsoredAccount list \<Rightarrow> Database" where
  "testDb rows = \<lparr>sponsored_accounts = rows, reclaim_history = [], bot_state = Map.empty\<rparr>"

definition ledger :: Database where
  "ledger = testDb
     [testRow ''A'' CLOSED (Some (10 * day)) None,
      testRow ''B'' CLOSED (Some (8 * day)) None,
      testRow ''C'' CLOSED (Some (18 * day)) None,
      testRow ''D'' ACTIVE None None]"

text \<open>
  A node on which every request takes one millisecond.  The account queried is an empty
  SPL token account owned by the operator, which exists from time \<open>appearsAt\<close> on and
  not before.
\<close>

definition tokenInfo :: AccountInfo where
  "tokenInfo = \<lparr>info_lamports = 2039280, info_owner = TOKEN_PROGRAM_ID, info_dataLength = 165\<rparr>"

definition operatorToken :: TokenAccountInfo where
  "operatorToken = \<lparr>token_owner = ''Operator'', token_closeAuthority = None, token_amount = 0\<rparr>"

definition testConnection :: "int \<Rightarrow> int connection" where
  "testConnection appearsAt =
     \<lparr>getSignaturesForAddress = (\<lambda>address before limit w. (Inr [], w + 1)),
      getParsedTransaction = (\<lambda>sig w. (Inr None, w + 1)),
      getAccountInfo = (\<lambda>pk w. (Inr (if appearsAt \<le> w then Some tokenInfo else None), w + 1)),
      getMinimumBalanceForRentExemption = (\<lambda>n w. (Inr 2039280, w + 1)),
      getTokenAccount = (\<lambda>pk programId w. (Inr operatorToken, w + 1)),
      sendAndConfirmTransaction = (\<lambda>ix w. (Inr ''5ig'', w + 1))\<rparr>"

definition testConfig :: BotConfig where
  "testConfig =
     \<lparr>koraFeePayer = ''Kora'', treasuryPubkey = None, minAccountAgeDays = 7,
      minReclaimLamports = 890880, maxBatchSize = 50, allowedPrograms = [TOKEN_PROGRAM_ID],
      blockedPrograms = [], rpcRateLimit = 10, txDelayMs = 1000\<rparr>"

definition testSol :: "int \<Rightarrow> int SolanaService" where
  "testSol appearsAt =
     \<lparr>runtime = testClock, connection = testConnection appearsAt,
      operatorKeypair = ''Operator'', config = testConfig\<rparr>"

text \<open>
  \<open>R1\<close> is the account of the specification's scenario (closed 10 days ago, rent-exempt
  minimum 2,039,280, controller on the allow-list); \<open>R2\<close> was closed 2 days ago and its
  controller is not on the allow-list; \<open>R3\<close> is below the minimum reclaim; \<open>R4\<close> is old
  enough but its controller is not on the allow-list.  The reclaim cycle starts on day 20;
  \<open>reclaimRun\<close> processes one account of the store \<open>ledger\<close>.
\<close>

definition R1 :: SponsoredAccount where
  "R1 = testRow ''A'' CLOSED (Some (10 * day)) None"

definition R2 :: SponsoredAccount where
  "R2 = (testRow ''C'' CLOSED (Some (18 * day)) None)\<lparr>owner := ''Other''\<rparr>"

definition R3 :: SponsoredAccount where
  "R3 = R1\<lparr>rentExemptMinimum := 100\<rparr>"

definition R4 :: SponsoredAccount where
  "R4 = R1\<lparr>owner := ''Other''\<rparr>"

definition start :: "int gstate" where
  "start = testState (20 * day) 0"

definition reclaimRun ::
  "int \<Rightarrow> SponsoredAccount \<Rightarrow> bool \<Rightarrow> (exn + ReclaimResult) \<times> int gstate \<times> Database" where
  "reclaimRun appearsAt acct dry =
     reclaimAccount (testSol appearsAt) acct ''Treasury'' dry start ledger"


text \<open>
  A node with one sponsored transaction \<open>s1\<close>, which created the account \<open>Ns1\<close>, and the
  gateway states a discovery run over it goes through.
\<close>

definition creation :: "string \<Rightarrow> ParsedTransaction" where
  "creation sg =
     \<lparr>tx_meta = Some \<lparr>preBalances = [5000000, 0], postBalances = [2955720, 2039280],
                       innerInstructions = None\<rparr>,
      tx_accountKeys = [''Kora'', ''N'' @ sg], tx_signatures = [sg],
      tx_blockTime = Some 1700000000, tx_slot = 42\<rparr>"

definition historyConnection :: "int connection" where
  "historyConnection =
     \<lparr>getSignaturesForAddress =
        (\<lambda>address before limit w.
           (Inr (case before of
                   None \<Rightarrow> [\<lparr>sig_signature = ''s1'', sig_err = False\<rparr>]
                 | Some b \<Rightarrow> []), w + 1)),
      getParsedTransaction = (\<lambda>sg w. (Inr (Some (creation sg)), w + 1)),
      getAccountInfo = (\<lambda>pk w. (Inr (Some tokenInfo), w + 1)),
      getMinimumBalanceForRentExemption = (\<lambda>n w. (Inr 2039280, w + 1)),
      getTokenAccount = (\<lambda>pk programId w. (Inr operatorToken, w + 1)),
      sendAndConfirmTransaction = (\<lambda>ix w. (Inr ''5ig'', w + 1))\<rparr>"

definition historySol :: "int SolanaService" where
  "historySol = (testSol 0)\<lparr>connection := historyConnection\<rparr>"

definition afterPage :: "int gstate" where
  "afterPage =
     \<lparr>world = 20 * day + 2,
      trace = [Acquire, Rpc (GetSignaturesForAddress None 100), Acquire,
               Rpc (GetParsedTransaction ''s1'')],
      rateLimiter = \<lparr>tokens = 801 / 100, lastRefill = 20 * day + 1, maxTokens = 10,
                      refillRate = 10\<rparr>\<rparr>"

definition afterFound :: "int gstate" where
  "afterFound =
     \<lparr>world = 20 * day + 4,
      trace = trace afterPage @
              [Acquire, Rpc (GetAccountInfo ''Ns1''), Acquire,
               Rpc (GetMinimumBalanceForRentExemption 165)],
      rateLimiter = \<lparr>tokens = 603 / 100, lastRefill = 20 * day + 3, maxTokens = 10,
                      refillRate = 10\<rparr>\<rparr>"

definition afterRun :: "int gstate" where
  "afterRun =
     \<lparr>world = 20 * day + 5,
      trace = trace afterFound @ [Acquire, Rpc (GetSignaturesForAddress (Some ''s1'') 100)],
      rateLimiter = \<lparr>tokens = 126 / 25, lastRefill = 20 * day + 4, maxTokens = 10,
                      refillRate = 10\<rparr>\<rparr>"

section \<open>Verification: utilities\<close>

declare retryLoop.simps [simp del]

lemma backoff_shift:
  "backoff opts d (Suc k) = backoff opts (min (d * backoffMultiplier opts) (maxDelayMs opts)) k"
  by (induction k) simp_all

lemma beforeAttempt_shift:
  "beforeAttempt clk fn opts d s (Suc k) =
   beforeAttempt clk fn opts (min (d * backoffMultiplier opts) (maxDelayMs opts))
     (sleep clk (Ms d) (snd (fn s))) k"
proof (induction k)
  case 0
  show ?case by simp
next
  case (Suc k)
  show ?case
    using Suc.IH backoff_shift [of opts d k] by simp
qed

lemma retryLoop_retry:
  assumes "retryableFailure opts (fst (fn s))" and "attempt < maxAttempts opts"
  shows "retryLoop clk fn opts attempt d le s =
         retryLoop clk fn opts (attempt + 1) (min (d * backoffMultiplier opts) (maxDelayMs opts))
           (case fst (fn s) of Inl e \<Rightarrow> e | Inr v \<Rightarrow> le) (sleep clk (Ms d) (snd (fn s)))"
  using assms
  by (subst retryLoop.simps)
     (auto simp: retryableFailure_def split: prod.splits sum.splits option.splits)

lemma retryLoop_run:
  assumes "attempt + int k \<le> maxAttempts opts"
    and "\<forall>j<k. retryableFailure opts (fst (fn (beforeAttempt clk fn opts d s j)))"
  shows "\<exists>le'. retryLoop clk fn opts attempt d le s =
         retryLoop clk fn opts (attempt + int k) (backoff opts d k) le'
           (beforeAttempt clk fn opts d s k)"
  using assms
proof (induction k arbitrary: attempt d le s)
  case 0
  show ?case by auto
next
  case (Suc k)
  let ?d = "min (d * backoffMultiplier opts) (maxDelayMs opts)"
  let ?s = "sleep clk (Ms d) (snd (fn s))"
  have first: "retryableFailure opts (fst (fn s))"
    using Suc.prems(2) by (metis beforeAttempt.simps(1) zero_less_Suc)
  have lt: "attempt < maxAttempts opts" using Suc.prems(1) by simp
  have rest: "\<forall>j<k. retryableFailure opts (fst (fn (beforeAttempt clk fn opts ?d ?s j)))"
  proof (intro allI impI)
    fix j assume "j < k"
    then have "Suc j < Suc k" by simp
    then have "retryableFailure opts (fst (fn (beforeAttempt clk fn opts d s (Suc j))))"
      using Suc.prems(2) by blast
    then show "retryableFailure opts (fst (fn (beforeAttempt clk fn opts ?d ?s j)))"
      by (simp only: beforeAttempt_shift)
  qed
  have bound: "(attempt + 1) + int k \<le> maxAttempts opts" using Suc.prems(1) by simp
  obtain le' where
    "retryLoop clk fn opts (attempt + 1) ?d (case fst (fn s) of Inl e \<Rightarrow> e | Inr v \<Rightarrow> le) ?s =
       retryLoop clk fn opts ((attempt + 1) + int k) (backoff opts ?d k) le'
         (beforeAttempt clk fn opts ?d ?s k)"
    using Suc.IH [OF bound rest] by blast
  moreover have "retryLoop clk fn opts attempt d le s =
      retryLoop clk fn opts (attempt + 1) ?d (case fst (fn s) of Inl e \<Rightarrow> e | Inr v \<Rightarrow> le) ?s"
    using first lt by (rule retryLoop_retry)
  moreover have "attempt + 1 + int k = attempt + int (Suc k)" by simp
  ultimately show ?case
    by (simp only: beforeAttempt_shift backoff_shift) metis
qed


lemma retryLoop_return:
  assumes "attempt \<le> maxAttempts opts" and "fn s = (Inr v, s')"
  shows "retryLoop clk fn opts attempt d le s = (Inr v, s')"
  using assms by (subst retryLoop.simps) simp

lemma retryLoop_throw:
  assumes "attempt \<le> maxAttempts opts" and "fn s = (Inl e, s')" and "message e = Some m"
    and "\<not> isRetryable opts m \<or> attempt = maxAttempts opts"
  shows "retryLoop clk fn opts attempt d le s = (Inl e, s')"
  using assms by (subst retryLoop.simps) auto

lemma retry_timeout: "isRetryable DEFAULT_RETRY_OPTIONS ''Request TIMEOUT''"
  by code_simp

lemma retry_denied: "\<not> isRetryable DEFAULT_RETRY_OPTIONS ''Access denied''"
  by code_simp



text \<open>
  Claim C7.  Let the first \<open>k\<close> attempts of \<open>withRetry\<close> fail with a retryable error, with
  attempt \<open>k + 1\<close> still within \<open>maxAttempts\<close>; each of them is followed by a sleep of the
  backoff delay, which starts at \<open>initialDelayMs\<close> and evolves as
  \<open>min (delay * backoffMultiplier) maxDelayMs\<close> (\<open>beforeAttempt\<close>, \<open>backoff\<close>).  If attempt
  \<open>k + 1\<close> succeeds, \<open>withRetry\<close> returns its value; if it fails with a message that is not
  retryable (compared in lower case), or it is the last attempt, \<open>withRetry\<close> throws that
  error.  In both cases the final state is the one that attempt left: no further sleep
  and no further attempt.
\<close>

theorem withRetry_attempts:
  assumes "int k < maxAttempts opts"
    and "\<forall>j<k. retryableFailure opts
           (fst (fn (beforeAttempt clk fn opts (initialDelayMs opts) s j)))"
    and "fn (beforeAttempt clk fn opts (initialDelayMs opts) s k) = (r, s')"
  shows "(\<forall>v. r = Inr v \<longrightarrow> withRetry clk fn opts s = (Inr v, s')) \<and>
         (\<forall>e m. r = Inl e \<and> message e = Some m \<and>
                (\<not> isRetryable opts m \<or> int k + 1 = maxAttempts opts) \<longrightarrow>
                withRetry clk fn opts s = (Inl e, s'))"
proof -
  have bound: "1 + int k \<le> maxAttempts opts" using assms(1) by simp
  obtain le' where run:
    "withRetry clk fn opts s =
       retryLoop clk fn opts (1 + int k) (backoff opts (initialDelayMs opts) k) le'
         (beforeAttempt clk fn opts (initialDelayMs opts) s k)"
    unfolding withRetry_def using retryLoop_run [OF bound assms(2)] by blast
  have eq: "1 + int k = maxAttempts opts" if "int k + 1 = maxAttempts opts"
    using that by simp
  show ?thesis
    unfolding run using bound assms(3) eq
    by (auto intro: retryLoop_return retryLoop_throw)
qed

theorem withRetry_attempts_witness:
  "withRetry testClock (flaky 3000 ''Request TIMEOUT'') DEFAULT_RETRY_OPTIONS (testState 0 0) =
     (Inr 42, (testState 3000 0)\<lparr>trace := [Sleep (Ms 1000), Sleep (Ms 2000)]\<rparr>) \<and>
   withRetry testClock (flaky 3000 ''Access denied'') DEFAULT_RETRY_OPTIONS (testState 0 0) =
     (Inl (Error ''Access denied''), testState 0 0)"
proof
  let ?fn = "flaky 3000 ''Request TIMEOUT''"
  let ?before = "beforeAttempt testClock ?fn DEFAULT_RETRY_OPTIONS
                   (initialDelayMs DEFAULT_RETRY_OPTIONS) (testState 0 0)"
  have b1: "?before (Suc 0) = (testState 1000 0)\<lparr>trace := [Sleep (Ms 1000)]\<rparr>"
    by (simp add: flaky_def testState_def sleep_def testClock_def DEFAULT_RETRY_OPTIONS_def)
  have b2: "?before (Suc (Suc 0)) =
            (testState 3000 0)\<lparr>trace := [Sleep (Ms 1000), Sleep (Ms 2000)]\<rparr>"
    by (simp add: flaky_def testState_def sleep_def testClock_def DEFAULT_RETRY_OPTIONS_def)
  have fails: "\<forall>j<2. retryableFailure DEFAULT_RETRY_OPTIONS (fst (?fn (?before j)))"
  proof (intro allI impI)
    fix j :: nat assume "j < 2"
    then have "j = 0 \<or> j = Suc 0" by auto
    then show "retryableFailure DEFAULT_RETRY_OPTIONS (fst (?fn (?before j)))"
      using retry_timeout b1
      by (auto simp: retryableFailure_def flaky_def testState_def)
  qed
  have many: "int 2 < maxAttempts DEFAULT_RETRY_OPTIONS"
    by (simp add: DEFAULT_RETRY_OPTIONS_def)
  have last: "?fn (?before 2) =
              (Inr 42, (testState 3000 0)\<lparr>trace := [Sleep (Ms 1000), Sleep (Ms 2000)]\<rparr>)"
    using b2 by (simp add: numeral_2_eq_2 flaky_def testState_def)
  show "withRetry testClock ?fn DEFAULT_RETRY_OPTIONS (testState 0 0) =
        (Inr 42, (testState 3000 0)\<lparr>trace := [Sleep (Ms 1000), Sleep (Ms 2000)]\<rparr>)"
    using withRetry_attempts [OF many fails last] by simp
next
  let ?fn = "flaky 3000 ''Access denied''"
  have few: "int 0 < maxAttempts DEFAULT_RETRY_OPTIONS"
    by (simp add: DEFAULT_RETRY_OPTIONS_def)
  have none: "\<forall>j<0. retryableFailure DEFAULT_RETRY_OPTIONS
                (fst (?fn (beforeAttempt testClock ?fn DEFAULT_RETRY_OPTIONS
                   (initialDelayMs DEFAULT_RETRY_OPTIONS) (testState 0 0) j)))"
    by simp
  have first: "?fn (beforeAttempt testClock ?fn DEFAULT_RETRY_OPTIONS
                 (initialDelayMs DEFAULT_RETRY_OPTIONS) (testState 0 0) 0) =
               (Inl (Error ''Access denied''), testState 0 0)"
    by (simp add: flaky_def testState_def)
  show "withRetry testClock ?fn DEFAULT_RETRY_OPTIONS (testState 0 0) =
        (Inl (Error ''Access denied''), testState 0 0)"
    using withRetry_attempts [OF few none first] retry_denied by simp
qed





section \<open>Verification: ledger store\<close>

lemma closedAtKey_rowToAccount [simp]: "closedAtKey (rowToAccount row) = closedAtKey row"
  by (simp add: closedAtKey_def rowToAccount_def)


















lemma list_all2_mapI: "(\<And>x. x \<in> set xs \<Longrightarrow> P x (f x)) \<Longrightarrow> list_all2 P xs (map f xs)"
  by (induction xs) simp_all

lemma COALESCE_keeps: "\<exists>v. COALESCE new (Some y) = Some v"
  by (cases new) simp_all

text \<open>
  Claim C10.  When the account is already in the store, \<open>upsertAccount\<close> leaves the
  attempt history and the key-value table alone, keeps every row in its place, changes no
  row of another key, and in the row it updates leaves \<open>pubkey\<close>, \<open>type\<close>, \<open>owner\<close>,
  \<open>rent_exempt_minimum\<close>, \<open>creation_tx_signature\<close>, \<open>creation_slot\<close>, \<open>created_at\<close> and
  \<open>metadata\<close> as they were.  A field among \<open>closed_at\<close>, \<open>reclaimed_at\<close>,
  \<open>reclaim_tx_signature\<close>, \<open>reclaimed_amount\<close> that the update passes as absent keeps its
  value, and one that was set is never cleared.
\<close>

theorem upsertAccount_frame:
  assumes "getAccount (pubkey a) d = Some existing"
  shows "reclaim_history (upsertAccount a d) = reclaim_history d \<and>
         bot_state (upsertAccount a d) = bot_state d \<and>
         list_all2
           (\<lambda>old new.
              pubkey new = pubkey old \<and> type new = type old \<and> owner new = owner old \<and>
              rentExemptMinimum new = rentExemptMinimum old \<and>
              creationTxSignature new = creationTxSignature old \<and>
              creationSlot new = creationSlot old \<and> createdAt new = createdAt old \<and>
              metadata new = metadata old \<and>
              (pubkey old \<noteq> pubkey a \<longrightarrow> new = old) \<and>
              (closedAt a = None \<longrightarrow> closedAt new = closedAt old) \<and>
              (reclaimedAt a = None \<longrightarrow> reclaimedAt new = reclaimedAt old) \<and>
              (reclaimTxSignature a = None \<longrightarrow> reclaimTxSignature new = reclaimTxSignature old) \<and>
              (reclaimedAmount a = None \<longrightarrow> reclaimedAmount new = reclaimedAmount old) \<and>
              (closedAt old \<noteq> None \<longrightarrow> closedAt new \<noteq> None) \<and>
              (reclaimedAt old \<noteq> None \<longrightarrow> reclaimedAt new \<noteq> None) \<and>
              (reclaimTxSignature old \<noteq> None \<longrightarrow> reclaimTxSignature new \<noteq> None) \<and>
              (reclaimedAmount old \<noteq> None \<longrightarrow> reclaimedAmount new \<noteq> None))
           (sponsored_accounts d) (sponsored_accounts (upsertAccount a d))"
proof -
  have rows: "sponsored_accounts (upsertAccount a d) =
      map (\<lambda>row. if pubkey row = pubkey a then upsertUpdateRow a row else row)
        (sponsored_accounts d)"
    using assms by (simp add: upsertAccount_def)
  show ?thesis
    unfolding rows using assms
    by (auto simp: upsertAccount_def upsertUpdateRow_def COALESCE_keeps intro!: list_all2_mapI)
qed


theorem upsertAccount_frame_witness:
  "getAccount ''A'' ledger = Some (testRow ''A'' CLOSED (Some (10 * day)) None) \<and>
   list_all2 (\<lambda>old new. closedAt new = closedAt old \<and> type new = type old \<and>
                (pubkey old \<noteq> ''A'' \<longrightarrow> new = old))
     (sponsored_accounts ledger)
     (sponsored_accounts (upsertAccount (testRow ''A'' ACTIVE None None) ledger))"
proof -
  let ?a = "testRow ''A'' ACTIVE None None"
  have present: "getAccount (pubkey ?a) ledger = Some (testRow ''A'' CLOSED (Some (10 * day)) None)"
    by (simp add: getAccount_def ledger_def testDb_def testRow_def rowToAccount_def)
  have absent: "closedAt ?a = None" and key: "pubkey ?a = ''A''"
    by (simp_all add: testRow_def)
  have "list_all2 (\<lambda>old new. closedAt new = closedAt old \<and> type new = type old \<and>
                (pubkey old \<noteq> ''A'' \<longrightarrow> new = old))
     (sponsored_accounts ledger) (sponsored_accounts (upsertAccount ?a ledger))"
    using upsertAccount_frame [OF present] absent key
    by (auto elim!: list_all2_mono)
  then show ?thesis using present key by simp
qed

section \<open>Verification: reclaim engine\<close>

lemma appended_refl: "appended P s s"
  by (simp add: appended_def)

lemma appended_trans: "appended P s s1 \<Longrightarrow> appended P s1 s2 \<Longrightarrow> appended P s s2"
  by (auto simp: appended_def)

lemma appended_sleep: "P (Sleep dur) \<Longrightarrow> appended P s (sleep c dur s)"
  by (simp add: appended_def sleep_def)

lemma appended_refill: "appended P s (refill c s)"
  by (simp add: appended_def refill_def Let_def)

lemma appended_takeToken: "P Acquire \<Longrightarrow> appended P s (takeToken s)"
  by (simp add: appended_def takeToken_def)

lemma appended_acquire:
  assumes "P Acquire" and "\<And>dur. P (Sleep dur)"
  shows "appended P s (acquire c s)"
proof -
  have tk: "appended P s1 (takeToken s1)" for s1 :: "'a gstate"
    using assms(1) by (simp add: appended_takeToken)
  have sl: "appended P s1 (sleep c dur s1)" for s1 :: "'a gstate" and dur
    using assms(2) by (simp add: appended_sleep)
  have take: "appended P s1 (takeToken (refill c s1))" for s1
    using appended_refill tk by (rule appended_trans)
  have a: "appended P s (takeToken (refill c s))"
    by (rule take)
  have b: "appended P s (takeToken (refill c (sleep c dur (refill c s))))" for dur
  proof -
    have "appended P s (sleep c dur (refill c s))"
      using appended_refill sl by (rule appended_trans)
    then show ?thesis using take by (rule appended_trans)
  qed
  show ?thesis using a b by (simp add: acquire_def Let_def)
qed

lemma appended_rpc: "P (Rpc req) \<Longrightarrow> appended P s (snd (rpc req f s))"
  by (simp add: appended_def rpc_def split: prod.splits)

lemma appended_retryLoop:
  assumes fn: "\<And>s. appended P s (snd (fn s))" and sl: "\<And>dur. P (Sleep dur)"
  shows "appended P s (snd (retryLoop c fn opts attempt delay le s))"
proof (induction "nat (maxAttempts opts + 1 - attempt)" arbitrary: attempt delay le s)
  case 0
  then have "\<not> attempt \<le> maxAttempts opts" by simp
  then show ?case by (subst retryLoop.simps) (simp add: appended_refl)
next
  case (Suc n)
  then have le: "attempt \<le> maxAttempts opts" by simp
  have next_n: "n = nat (maxAttempts opts + 1 - (attempt + 1))" using Suc(2) by simp
  obtain r s1 where r: "fn s = (r, s1)" by (cases "fn s")
  have s1: "appended P s s1" using fn [of s] r by simp
  have rec: "appended P s (snd (retryLoop c fn opts (attempt + 1) delay' le' (sleep c dur s1)))"
    for delay' le' dur
  proof -
    have "appended P s1 (sleep c dur s1)"
      using sl by (simp add: appended_sleep)
    with s1 have "appended P s (sleep c dur s1)"
      by (rule appended_trans)
    then show ?thesis using Suc(1) [OF next_n] by (rule appended_trans)
  qed
  show ?case
    using le r s1 rec
    by (subst retryLoop.simps) (simp split: sum.splits option.splits)
qed

lemma appended_withRetry:
  assumes "\<And>s. appended P s (snd (fn s))" and "\<And>dur. P (Sleep dur)"
  shows "appended P s (snd (withRetry c fn opts s))"
  unfolding withRetry_def using assms by (rule appended_retryLoop)

lemma appended_getRentExemptMinimum:
  assumes "\<And>e. \<not> isSubmit e \<Longrightarrow> P e"
  shows "appended P s (snd (getRentExemptMinimum sol n s))"
proof -
  have "appended P s (acquire (runtime sol) s)"
    using assms by (simp add: appended_acquire)
  moreover have "appended P (acquire (runtime sol) s) (snd (getRentExemptMinimum sol n s))"
    unfolding getRentExemptMinimum_def
    using assms by (intro appended_withRetry appended_rpc) simp_all
  ultimately show ?thesis by (rule appended_trans)
qed

lemma appended_checkAccountState:
  assumes "\<And>e. \<not> isSubmit e \<Longrightarrow> P e"
  shows "appended P s (snd (checkAccountState sol pk s))"
proof -
  obtain r1 s1 where w:
    "withRetry (runtime sol) (rpc (GetAccountInfo pk) (getAccountInfo (connection sol) pk))
       DEFAULT_RETRY_OPTIONS (acquire (runtime sol) s) = (r1, s1)"
    by (cases "withRetry (runtime sol) (rpc (GetAccountInfo pk)
          (getAccountInfo (connection sol) pk)) DEFAULT_RETRY_OPTIONS (acquire (runtime sol) s)")
  have "appended P s (acquire (runtime sol) s)"
    using assms by (simp add: appended_acquire)
  moreover have "appended P (acquire (runtime sol) s)
      (snd (withRetry (runtime sol) (rpc (GetAccountInfo pk)
          (getAccountInfo (connection sol) pk)) DEFAULT_RETRY_OPTIONS (acquire (runtime sol) s)))"
    using assms by (intro appended_withRetry appended_rpc) simp_all
  ultimately have s1: "appended P s s1" unfolding w snd_conv by (rule appended_trans)
  have s2: "appended P s s2" if "getRentExemptMinimum sol n s1 = (r2, s2)" for n r2 s2
  proof -
    have "appended P s1 (snd (getRentExemptMinimum sol n s1))"
      using assms by (rule appended_getRentExemptMinimum)
    then have "appended P s1 s2" using that by simp
    with s1 show ?thesis by (rule appended_trans)
  qed
  show ?thesis
    using s1 s2 w
    by (auto simp: checkAccountState_def split: prod.splits sum.splits option.splits)
qed

text \<open>
  Claim C1.  Let the account pass the age, minimum-value and allow-list checks, and let the
  re-check \<open>checkAccountState\<close> report that it exists on chain.  Then \<open>reclaimAccount\<close>
  returns a failed result whose error is the revival error; in the store the record of
  that key becomes \<open>active\<close> with the balance just observed (nothing else changes, and no
  attempt is recorded); and the gateway is left in the state the re-check left: neither
  \<open>reclaimTokenAccountRent\<close> nor \<open>closeSystemAccount\<close> has run, and no transaction was
  submitted.
\<close>

theorem reclaimAccount_revival:
  assumes "tooRecent (now (runtime sol) (world s)) (config sol) acct = None"
    and "\<not> rentExemptMinimum acct < minReclaimLamports (config sol)"
    and "isProgramAllowed (config sol) (owner acct)"
    and "checkAccountState sol (pubkey acct) s = (Inr cur, s1)"
    and "st_exists cur"
  shows "\<exists>res d'.
           reclaimAccount sol acct destination dry s d = (Inr res, s1, d') \<and>
           \<not> success res \<and> error res = Some AccountRevived \<and> amount res = 0 \<and>
           signature res = None \<and>
           reclaim_history d' = reclaim_history d \<and>
           list_all2
             (\<lambda>old new.
                if pubkey old = pubkey acct
                then new = old\<lparr>status := ACTIVE, lamports := st_lamports cur,
                               lastCheckedAt := now (runtime sol) (world s1)\<rparr>
                else new = old)
             (sponsored_accounts d) (sponsored_accounts d') \<and>
           appended (\<lambda>e. \<not> isSubmit e) s s1"
proof -
  let ?d = "updateAccountStatus (now (runtime sol) (world s1)) (pubkey acct) ACTIVE
              (noPatch\<lparr>p_lamports := Some (st_lamports cur)\<rparr>) d"
  have run: "reclaimAccount sol acct destination dry s d =
      (Inr (rejected acct AccountRevived dry (now (runtime sol) (world s))), s1, ?d)"
    using assms by (simp add: reclaimAccount_def Let_def)
  have quiet: "appended (\<lambda>e. \<not> isSubmit e) s s1"
    using appended_checkAccountState [of "\<lambda>e. \<not> isSubmit e" s sol "pubkey acct"] assms(4)
    by simp
  have rows: "list_all2
             (\<lambda>old new.
                if pubkey old = pubkey acct
                then new = old\<lparr>status := ACTIVE, lamports := st_lamports cur,
                               lastCheckedAt := now (runtime sol) (world s1)\<rparr>
                else new = old)
             (sponsored_accounts d) (sponsored_accounts ?d)"
    by (simp add: updateAccountStatus_def list_all2_map2 list.rel_refl patchRow_def noPatch_def
          setOpt_def)
  have hist: "reclaim_history ?d = reclaim_history d"
    by (simp add: updateAccountStatus_def)
  show ?thesis
    unfolding run using quiet rows hist by (simp add: rejected_def)
qed

text \<open>
  Claim C3.  \<open>reclaimAccount\<close> applies its checks in the order age, minimum value,
  allow-list, re-check, dispatch, and stops at the first that fails.  An account that
  fails the age check gets the age error whatever the later checks would say, and leaves
  the gateway state and the store as they were: no allow-list verdict is recorded and no
  remote call is made.  Likewise a failed minimum-value check makes no remote call; a
  failed allow-list check only marks the record \<open>protected\<close>; the re-check runs only after
  these three, and the dispatch only when the re-check finds the account closed.
\<close>

theorem reclaimAccount_order:
  "let t = now (runtime sol) (world s); cfg = config sol
   in (\<forall>age. tooRecent t cfg acct = Some age \<longrightarrow>
         reclaimAccount sol acct destination dry s d =
           (Inr (rejected acct (AccountTooRecent age (minAccountAgeDays cfg)) dry t), s, d)) \<and>
      (tooRecent t cfg acct = None \<and> rentExemptMinimum acct < minReclaimLamports cfg \<longrightarrow>
         reclaimAccount sol acct destination dry s d =
           (Inr (rejected acct
              (BelowMinimumReclaim (rentExemptMinimum acct) (minReclaimLamports cfg)) dry t),
            s, d)) \<and>
      (tooRecent t cfg acct = None \<and> \<not> rentExemptMinimum acct < minReclaimLamports cfg \<and>
       \<not> isProgramAllowed cfg (owner acct) \<longrightarrow>
         reclaimAccount sol acct destination dry s d =
           (Inr (rejected acct (ProgramNotAllowed (owner acct)) dry t), s,
            updateAccountStatus t (pubkey acct) PROTECTED noPatch d)) \<and>
      (tooRecent t cfg acct = None \<and> \<not> rentExemptMinimum acct < minReclaimLamports cfg \<and>
       isProgramAllowed cfg (owner acct) \<longrightarrow>
         (\<forall>err s1. checkAccountState sol (pubkey acct) s = (Inl err, s1) \<longrightarrow>
            reclaimAccount sol acct destination dry s d = (Inl err, s1, d)) \<and>
         (\<forall>cur s1. checkAccountState sol (pubkey acct) s = (Inr cur, s1) \<and> st_exists cur \<longrightarrow>
            fst (reclaimAccount sol acct destination dry s d) =
              Inr (rejected acct AccountRevived dry t) \<and>
            fst (snd (reclaimAccount sol acct destination dry s d)) = s1) \<and>
         (\<forall>cur s1 result s2.
            checkAccountState sol (pubkey acct) s = (Inr cur, s1) \<and> \<not> st_exists cur \<and>
            dispatch sol acct destination dry s1 = (result, s2) \<longrightarrow>
            fst (reclaimAccount sol acct destination dry s d) =
              Inr \<lparr>success = r_success result, account = pubkey acct,
                    amount = (case truthyNum (r_amount result) of Some a \<Rightarrow> a | None \<Rightarrow> 0),
                    signature = r_signature result, error = r_error result,
                    dryRun = dry, timestamp = t\<rparr> \<and>
            fst (snd (reclaimAccount sol acct destination dry s d)) = s2))"
  by (simp add: reclaimAccount_def Let_def)



lemma check_present:
  "checkAccountState (testSol 0) ''A'' (testState (20 * day) 0) =
     (Inr \<lparr>st_exists = True, st_lamports = 2039280, st_owner = TOKEN_PROGRAM_ID,
            st_type = TOKEN, st_rentExemptMinimum = 2039280\<rparr>,
      \<lparr>world = 20 * day + 2,
       trace = [Acquire, Rpc (GetAccountInfo ''A''), Acquire,
                Rpc (GetMinimumBalanceForRentExemption 165)],
       rateLimiter = \<lparr>tokens = 801 / 100, lastRefill = 20 * day + 1, maxTokens = 10,
                       refillRate = 10\<rparr>\<rparr>)"
  by code_simp

lemma check_absent:
  "checkAccountState (testSol (30 * day)) ''A'' (testState (20 * day) 0) =
     (Inr \<lparr>st_exists = False, st_lamports = 0, st_owner = [],
            st_type = UNKNOWN, st_rentExemptMinimum = 0\<rparr>,
      \<lparr>world = 20 * day + 1,
       trace = [Acquire, Rpc (GetAccountInfo ''A'')],
       rateLimiter = \<lparr>tokens = 9, lastRefill = 20 * day, maxTokens = 10,
                       refillRate = 10\<rparr>\<rparr>)"
  by code_simp






lemma pair: "fst x = a \<Longrightarrow> x = (a, snd x)"
  by (cases x) auto

theorem reclaimAccount_revival_witness:
  "tooRecent (now (runtime (testSol 0)) (world start)) (config (testSol 0)) R1 = None \<and>
   \<not> rentExemptMinimum R1 < minReclaimLamports (config (testSol 0)) \<and>
   isProgramAllowed (config (testSol 0)) (owner R1) \<and>
   (\<exists>res s1 d'.
      reclaimAccount (testSol 0) R1 ''Treasury'' False start ledger = (Inr res, s1, d') \<and>
      \<not> success res \<and> error res = Some AccountRevived \<and>
      reclaim_history d' = reclaim_history ledger \<and>
      trace s1 = [Acquire, Rpc (GetAccountInfo ''A''), Acquire,
                  Rpc (GetMinimumBalanceForRentExemption 165)])"
proof -
  have age: "tooRecent (now (runtime (testSol 0)) (world start)) (config (testSol 0)) R1 = None"
    by code_simp
  have rent: "\<not> rentExemptMinimum R1 < minReclaimLamports (config (testSol 0))"
    by code_simp
  have allowed: "isProgramAllowed (config (testSol 0)) (owner R1)"
    by code_simp
  have key: "pubkey R1 = ''A''"
    by (simp add: R1_def testRow_def)
  have recheck: "checkAccountState (testSol 0) (pubkey R1) start =
     (Inr \<lparr>st_exists = True, st_lamports = 2039280, st_owner = TOKEN_PROGRAM_ID,
            st_type = TOKEN, st_rentExemptMinimum = 2039280\<rparr>,
      \<lparr>world = 20 * day + 2,
       trace = [Acquire, Rpc (GetAccountInfo ''A''), Acquire,
                Rpc (GetMinimumBalanceForRentExemption 165)],
       rateLimiter = \<lparr>tokens = 801 / 100, lastRefill = 20 * day + 1, maxTokens = 10,
                       refillRate = 10\<rparr>\<rparr>)"
    unfolding key start_def by (rule check_present)
  show ?thesis
    using reclaimAccount_revival [OF age rent allowed recheck, of "''Treasury''" False ledger]
      age rent allowed
    by auto
qed

theorem reclaimAccount_order_witness:
  "\<not> isProgramAllowed testConfig (owner R2) \<and>
   reclaimAccount (testSol 0) R2 ''Treasury'' False start ledger =
     (Inr (rejected R2 (AccountTooRecent 2 7) False (20 * day)), start, ledger) \<and>
   reclaimAccount (testSol 0) R3 ''Treasury'' False start ledger =
     (Inr (rejected R3 (BelowMinimumReclaim 100 890880) False (20 * day)), start, ledger) \<and>
   reclaimAccount (testSol 0) R4 ''Treasury'' False start ledger =
     (Inr (rejected R4 (ProgramNotAllowed ''Other'') False (20 * day)), start,
      updateAccountStatus (20 * day) ''A'' PROTECTED noPatch ledger) \<and>
   fst (reclaimAccount (testSol 0) R1 ''Treasury'' False start ledger) =
     Inr (rejected R1 AccountRevived False (20 * day)) \<and>
   fst (reclaimAccount (testSol (30 * day)) R1 ''Treasury'' True start ledger) =
     Inr \<lparr>success = False, account = ''A'', amount = 0, signature = None,
           error = Some AlreadyClosed, dryRun = True, timestamp = 20 * day\<rparr>"
proof -
  have t0: "now (runtime (testSol a)) (world start) = 20 * day" for a
    by (simp add: testSol_def testClock_def start_def testState_def)
  have cfg: "config (testSol a) = testConfig" for a
    by (simp add: testSol_def)
  have young: "tooRecent (20 * day) testConfig R2 = Some 2"
    by code_simp
  have blocked: "\<not> isProgramAllowed testConfig (owner R2)"
    by code_simp
  have old3: "tooRecent (20 * day) testConfig R3 = None"
    and low3: "rentExemptMinimum R3 < minReclaimLamports testConfig"
    and vals3: "rentExemptMinimum R3 = 100" "minReclaimLamports testConfig = 890880"
    by code_simp+
  have old4: "tooRecent (20 * day) testConfig R4 = None"
    and rent4: "\<not> rentExemptMinimum R4 < minReclaimLamports testConfig"
    and blocked4: "\<not> isProgramAllowed testConfig (owner R4)"
    and vals4: "owner R4 = ''Other''" "pubkey R4 = ''A''"
    by code_simp+
  have old1: "tooRecent (20 * day) testConfig R1 = None"
    and rent1: "\<not> rentExemptMinimum R1 < minReclaimLamports testConfig"
    and allowed1: "isProgramAllowed testConfig (owner R1)"
    and key1: "pubkey R1 = ''A''"
    by code_simp+
  have present: "checkAccountState (testSol 0) (pubkey R1) start =
     (Inr \<lparr>st_exists = True, st_lamports = 2039280, st_owner = TOKEN_PROGRAM_ID,
            st_type = TOKEN, st_rentExemptMinimum = 2039280\<rparr>,
      \<lparr>world = 20 * day + 2,
       trace = [Acquire, Rpc (GetAccountInfo ''A''), Acquire,
                Rpc (GetMinimumBalanceForRentExemption 165)],
       rateLimiter = \<lparr>tokens = 801 / 100, lastRefill = 20 * day + 1, maxTokens = 10,
                       refillRate = 10\<rparr>\<rparr>)"
    unfolding key1 start_def by (rule check_present)
  have absent: "checkAccountState (testSol (30 * day)) (pubkey R1) start =
     (Inr \<lparr>st_exists = False, st_lamports = 0, st_owner = [],
            st_type = UNKNOWN, st_rentExemptMinimum = 0\<rparr>,
      \<lparr>world = 20 * day + 1,
       trace = [Acquire, Rpc (GetAccountInfo ''A'')],
       rateLimiter = \<lparr>tokens = 9, lastRefill = 20 * day, maxTokens = 10,
                       refillRate = 10\<rparr>\<rparr>)"
    unfolding key1 start_def by (rule check_absent)
  have dispatched: "fst (dispatch (testSol (30 * day)) R1 ''Treasury'' True
      \<lparr>world = 20 * day + 1,
       trace = [Acquire, Rpc (GetAccountInfo ''A'')],
       rateLimiter = \<lparr>tokens = 9, lastRefill = 20 * day, maxTokens = 10,
                       refillRate = 10\<rparr>\<rparr>) = failed AlreadyClosed"
    by code_simp
  have minAge: "minAccountAgeDays testConfig = 7"
    by (simp add: testConfig_def)
  have w2: "reclaimAccount (testSol 0) R2 ''Treasury'' False start ledger =
     (Inr (rejected R2 (AccountTooRecent 2 7) False (20 * day)), start, ledger)"
    using reclaimAccount_order [where sol = "testSol 0" and s = start and acct = R2
        and dry = False and d = ledger and destination = "''Treasury''"] young minAge
    by (simp add: Let_def t0 cfg)
  have w3: "reclaimAccount (testSol 0) R3 ''Treasury'' False start ledger =
     (Inr (rejected R3 (BelowMinimumReclaim 100 890880) False (20 * day)), start, ledger)"
    using reclaimAccount_order [where sol = "testSol 0" and s = start and acct = R3
        and dry = False and d = ledger and destination = "''Treasury''"] old3 low3 vals3
    by (simp add: Let_def t0 cfg)
  have w4: "reclaimAccount (testSol 0) R4 ''Treasury'' False start ledger =
     (Inr (rejected R4 (ProgramNotAllowed ''Other'') False (20 * day)), start,
      updateAccountStatus (20 * day) ''A'' PROTECTED noPatch ledger)"
    using reclaimAccount_order [where sol = "testSol 0" and s = start and acct = R4
        and dry = False and d = ledger and destination = "''Treasury''"]
      old4 rent4 blocked4 vals4
    by (simp add: Let_def t0 cfg)
  have w1: "fst (reclaimAccount (testSol 0) R1 ''Treasury'' False start ledger) =
     Inr (rejected R1 AccountRevived False (20 * day))"
    using reclaimAccount_order [where sol = "testSol 0" and s = start and acct = R1
        and dry = False and d = ledger and destination = "''Treasury''"]
      old1 rent1 allowed1 present
    by (simp add: Let_def t0 cfg)
  have w5: "fst (reclaimAccount (testSol (30 * day)) R1 ''Treasury'' True start ledger) =
     Inr \<lparr>success = False, account = ''A'', amount = 0, signature = None,
           error = Some AlreadyClosed, dryRun = True, timestamp = 20 * day\<rparr>"
    using reclaimAccount_order [where sol = "testSol (30 * day)" and s = start and acct = R1
        and dry = True and d = ledger and destination = "''Treasury''"]
      old1 rent1 allowed1 absent pair [OF dispatched] key1
    by (simp add: Let_def t0 cfg failed_def)
  show ?thesis using blocked w2 w3 w4 w1 w5 by simp
qed

text \<open>Every token account that passes the safety checks and is still closed when the
  reclaim operation looks at it is rejected as already closed, in simulate and in live
  mode, and the failed attempt is recorded.\<close>

lemma reclaimAccount_still_closed:
  assumes "tooRecent (now (runtime sol) (world s)) (config sol) acct = None"
    and "\<not> rentExemptMinimum acct < minReclaimLamports (config sol)"
    and "isProgramAllowed (config sol) (owner acct)"
    and "type acct = TOKEN \<or> type acct = TOKEN_2022 \<or> type acct = ATA"
    and "checkAccountState sol (pubkey acct) s = (Inr cur, s1)" and "\<not> st_exists cur"
    and "checkAccountState sol (pubkey acct) s1 = (Inr cur', s2)" and "\<not> st_exists cur'"
  shows "reclaimAccount sol acct destination dry s d =
     (Inr \<lparr>success = False, account = pubkey acct, amount = 0, signature = None,
            error = Some AlreadyClosed, dryRun = dry,
            timestamp = now (runtime sol) (world s)\<rparr>,
      s2,
      recordReclaimAttempt (now (runtime sol) (world s2)) (pubkey acct) None 0 False dry
        (Some AlreadyClosed) d)"
proof -
  have "dispatch sol acct destination dry s1 = (failed AlreadyClosed, s2)"
    using assms(4,7,8) by (auto simp: dispatch_def reclaimTokenAccountRent_def)
  then show ?thesis
    using assms(1,2,3,5,6)
    by (simp add: reclaimAccount_def Let_def failed_def bookkeeping_def)
qed

text \<open>
  Claim C2: the scenario \<open>R1\<close> of the specification in simulate mode, on a node where the
  account does not exist.  The re-check finds the account closed and the dispatch is
  reached; \<open>reclaimTokenAccountRent\<close> then checks the account again, finds that it does
  not exist and fails with \<open>Account does not exist (already closed)\<close>; the failed attempt
  is appended to the history.  The claim expects a success of 2,039,280 and an untouched
  store.
\<close>

theorem reclaimAccount_closed_token_dry_run:
  "closedAt R1 = Some (10 * day) \<and> ageInDays (20 * day) (10 * day) = 10 \<and>
   minAccountAgeDays testConfig = 7 \<and>
   rentExemptMinimum R1 = 2039280 \<and> minReclaimLamports testConfig = 890880 \<and>
   isProgramAllowed testConfig (owner R1) \<and> type R1 = TOKEN \<and>
   fst (checkAccountState (testSol (30 * day)) (pubkey R1) start) =
     Inr \<lparr>st_exists = False, st_lamports = 0, st_owner = [], st_type = UNKNOWN,
           st_rentExemptMinimum = 0\<rparr> \<and>
   fst (reclaimRun (30 * day) R1 True) =
     Inr \<lparr>success = False, account = ''A'', amount = 0, signature = None,
           error = Some AlreadyClosed, dryRun = True, timestamp = 20 * day\<rparr> \<and>
   reclaim_history ledger = [] \<and>
   reclaim_history (snd (snd (reclaimRun (30 * day) R1 True))) =
     [\<lparr>account_pubkey = ''A'', tx_signature = None, attempt_amount = 0,
       attempt_success = False, dry_run = True, error_message = Some AlreadyClosed,
       created_at = 20 * day + 2\<rparr>]"
  by code_simp



section \<open>Verification: rate limiting and retry in the gateway\<close>











section \<open>Verification: discovery\<close>

lemma retryLoop_step:
  assumes "attempt \<le> maxAttempts opts"
  shows "fst (retryLoop c fn opts attempt dl le x) =
     (case fst (fn x) of
        Inr v \<Rightarrow> Inr v
      | Inl e \<Rightarrow>
          (case message e of
             None \<Rightarrow> Inl (TypeError ''Cannot read properties of undefined'')
           | Some m \<Rightarrow>
               if \<not> isRetryable opts m \<or> attempt = maxAttempts opts then Inl e
               else fst (retryLoop c fn opts (attempt + 1)
                      (min (dl * backoffMultiplier opts) (maxDelayMs opts)) e
                      (sleep c (Ms dl) (snd (fn x))))))"
  using assms
  by (subst retryLoop.simps) (simp split: prod.splits sum.splits option.splits)

lemma retryLoop_stable:
  assumes "\<And>s s'. fst (fn s) = fst (fn s')"
  shows "fst (retryLoop c fn opts attempt dl le s) = fst (retryLoop c fn opts attempt dl le s')"
proof (induction "nat (maxAttempts opts + 1 - attempt)" arbitrary: attempt dl le s s')
  case 0
  then have "\<not> attempt \<le> maxAttempts opts" by simp
  then show ?case by (subst retryLoop.simps, subst (2) retryLoop.simps) simp
next
  case (Suc n)
  then have le: "attempt \<le> maxAttempts opts" by simp
  have next_n: "n = nat (maxAttempts opts + 1 - (attempt + 1))" using Suc(2) by simp
  have same: "fst (fn s) = fst (fn s')" by (rule assms)
  have rec: "fst (retryLoop c fn opts (attempt + 1) dl' e x) =
             fst (retryLoop c fn opts (attempt + 1) dl' e x')" for dl' e x x'
    using Suc(1) [OF next_n] .
  show ?case
    unfolding retryLoop_step [OF le] same
    by (simp add: rec [of _ _ "sleep c (Ms dl) (snd (fn s))" "sleep c (Ms dl) (snd (fn s'))"]
          split: sum.splits option.splits)
qed

lemma withRetry_stable:
  assumes "\<And>s s'. fst (fn s) = fst (fn s')"
  shows "fst (withRetry c fn opts s) = fst (withRetry c fn opts s')"
  unfolding withRetry_def using assms by (rule retryLoop_stable)

lemma rpc_stable:
  assumes "\<And>w w'. fst (f w) = fst (f w')"
  shows "fst (rpc req f s) = fst (rpc req f s')"
  using assms [of "world s" "world s'"] by (simp add: rpc_def case_prod_beta)

lemma request_stable:
  assumes "\<And>w w'. fst (f w) = fst (f w')"
  shows "fst (withRetry c (rpc req f) opts s) = fst (withRetry c (rpc req f) opts s')"
  by (rule withRetry_stable) (rule rpc_stable, rule assms)

lemma getRentExemptMinimum_stable:
  assumes "stableNode (connection sol)"
  shows "fst (getRentExemptMinimum sol n s) = fst (getRentExemptMinimum sol n s')"
  unfolding getRentExemptMinimum_def
  using assms by (intro request_stable) (simp add: stableNode_def)

lemma checkAccountState_stable:
  assumes "stableNode (connection sol)"
  shows "fst (checkAccountState sol pk s) = fst (checkAccountState sol pk s')"
proof -
  let ?q = "\<lambda>x. withRetry (runtime sol) (rpc (GetAccountInfo pk)
              (getAccountInfo (connection sol) pk)) DEFAULT_RETRY_OPTIONS
              (acquire (runtime sol) x)"
  have q: "fst (?q s) = fst (?q s')"
    using assms by (intro request_stable) (simp add: stableNode_def)
  obtain r s1 where r: "?q s = (r, s1)" by (cases "?q s")
  obtain r' s1' where r': "?q s' = (r', s1')" by (cases "?q s'")
  have rr: "r' = r" using q r r' by simp
  have rent: "fst (getRentExemptMinimum sol n s1) = fst (getRentExemptMinimum sol n s1')" for n
    using assms by (rule getRentExemptMinimum_stable)
  show ?thesis
    using r r' rr rent
    by (simp add: checkAccountState_def case_prod_beta split: sum.splits option.splits)
qed

lemma fetchTransactions_stable:
  assumes "stableNode (connection sol)"
  shows "fst (fetchTransactions sol signatures txs s) = fst (fetchTransactions sol signatures txs s')"
proof (induction signatures arbitrary: txs s s')
  case Nil
  show ?case by simp
next
  case (Cons sigInfo rest)
  let ?q = "\<lambda>x. withRetry (runtime sol)
                (rpc (GetParsedTransaction (sig_signature sigInfo))
                   (getParsedTransaction (connection sol) (sig_signature sigInfo)))
                DEFAULT_RETRY_OPTIONS (acquire (runtime sol) x)"
  have q: "fst (?q s) = fst (?q s')"
    using assms by (intro request_stable) (simp add: stableNode_def)
  obtain r s1 where r: "?q s = (r, s1)" by (cases "?q s")
  obtain r' s1' where r': "?q s' = (r', s1')" by (cases "?q s'")
  have rr: "r' = r" using q r r' by simp
  show ?case
    using r r' rr Cons.IH
    by (simp split: sum.splits option.splits)
qed

lemma scanSponsoredTransactions_stable:
  assumes "stableNode (connection sol)"
  shows "fst (scanSponsoredTransactions sol before limit s) =
         fst (scanSponsoredTransactions sol before limit s')"
proof -
  let ?q = "\<lambda>x. withRetry (runtime sol)
             (rpc (GetSignaturesForAddress before limit)
                (getSignaturesForAddress (connection sol) (koraFeePayer (config sol))
                   before limit))
             DEFAULT_RETRY_OPTIONS (acquire (runtime sol) x)"
  have q: "fst (?q s) = fst (?q s')"
    using assms by (intro request_stable) (simp add: stableNode_def)
  obtain r s1 where r: "?q s = (r, s1)" by (cases "?q s")
  obtain r' s1' where r': "?q s' = (r', s1')" by (cases "?q s'")
  have rr: "r' = r" using q r r' by simp
  have fetch: "fst (fetchTransactions sol signatures [] s1) =
               fst (fetchTransactions sol signatures [] s1')" for signatures
    using assms by (rule fetchTransactions_stable)
  show ?thesis
    using r r' rr fetch
    by (simp add: scanSponsoredTransactions_def case_prod_beta split: sum.splits)
qed

lemma getAccount_None: "(getAccount pk d = None) = (pk \<notin> tracked d)"
proof -
  have "(filter (\<lambda>row. pubkey row = pk) rows = []) = (pk \<notin> pubkey ` set rows)"
    for rows :: "SponsoredAccount list"
    by (induction rows) auto
  then have "(filter (\<lambda>row. pubkey row = pk) (sponsored_accounts d) = []) = (pk \<notin> tracked d)"
    by (simp add: tracked_def)
  then show ?thesis
    by (cases "filter (\<lambda>row. pubkey row = pk) (sponsored_accounts d)")
       (simp_all add: getAccount_def)
qed

lemma upsert_new:
  assumes "getAccount (pubkey a) d = None"
  shows "sponsored_accounts (upsertAccount a d) = sponsored_accounts d @ [upsertInsertRow a]"
    and "bot_state (upsertAccount a d) = bot_state d"
    and "reclaim_history (upsertAccount a d) = reclaim_history d"
  using assms by (simp_all add: upsertAccount_def)

lemma pubkey_upsertInsertRow [simp]: "pubkey (upsertInsertRow a) = pubkey a"
  by (simp add: upsertInsertRow_def)

lemma tracked_upsert_new:
  assumes "getAccount (pubkey a) d = None"
  shows "tracked (upsertAccount a d) = insert (pubkey a) (tracked d)"
  using upsert_new(1) [OF assms] by (simp add: tracked_def)

lemma settled_mono:
  assumes "settled sol d tx pk" and "tracked d \<subseteq> tracked d'"
  shows "settled sol d' tx pk"
  using assms by (auto simp: settled_def)

lemma grown_refl: "grown d d"
  by (simp add: grown_def)

lemma grown_trans:
  assumes "grown d d1" and "grown d1 d2"
  shows "grown d d2"
proof -
  obtain n1 where n1: "sponsored_accounts d1 = sponsored_accounts d @ n1"
    using assms(1) by (auto simp: grown_def)
  obtain n2 where n2: "sponsored_accounts d2 = sponsored_accounts d1 @ n2"
    using assms(2) by (auto simp: grown_def)
  have "sponsored_accounts d2 = sponsored_accounts d @ (n1 @ n2)"
    using n1 n2 by simp
  then have "\<exists>new. sponsored_accounts d2 = sponsored_accounts d @ new" by blast
  moreover have "distinct (map pubkey (sponsored_accounts d)) \<longrightarrow>
                 distinct (map pubkey (sponsored_accounts d2))"
    using assms by (simp add: grown_def)
  moreover have "reclaim_history d2 = reclaim_history d"
    using assms by (simp add: grown_def)
  ultimately show ?thesis by (simp add: grown_def)
qed

lemma grown_tracked: "grown d d' \<Longrightarrow> tracked d \<subseteq> tracked d'"
  by (auto simp: grown_def tracked_def)

lemma grown_upsert:
  assumes "getAccount (pubkey a) d = None"
  shows "grown d (upsertAccount a d)"
proof -
  have "pubkey a \<notin> tracked d" using assms getAccount_None by simp
  then show ?thesis
    using upsert_new [OF assms] by (simp add: grown_def tracked_def)
qed

lemma discoverAccounts_facts:
  assumes "stableNode (connection sol)"
    and "discoverAccounts sol tx pks n s d = (n', s', d')"
  shows "grown d d' \<and> (\<forall>pk \<in> set pks. settled sol d' tx pk)"
  using assms(2)
proof (induction pks arbitrary: n s d)
  case Nil
  then show ?case by (simp add: grown_refl)
next
  case (Cons pk rest)
  have step: "grown d d' \<and> (\<forall>x \<in> set (pk # rest). settled sol d' tx x)"
    if "grown d d1" and "settled sol d1 tx pk"
      and "grown d1 d' \<and> (\<forall>x \<in> set rest. settled sol d' tx x)" for d1
    using that grown_trans [of d d1 d'] settled_mono [of sol d1 tx pk d'] grown_tracked [of d1 d']
    by simp
  show ?case
  proof (cases "getAccount pk d")
    case (Some existing)
    then have run: "discoverAccounts sol tx rest n s d = (n', s', d')"
      using Cons.prems by simp
    have here: "settled sol d tx pk"
      using Some getAccount_None [of pk d] by (simp add: settled_def)
    show ?thesis
      using grown_refl here Cons.IH [OF run] by (rule step)
  next
    case None
    obtain r s1 where chk: "checkAccountState sol pk s = (r, s1)"
      by (cases "checkAccountState sol pk s")
    show ?thesis
    proof (cases r)
      case (Inl err)
      then have run: "discoverAccounts sol tx rest n s1 d = (n', s', d')"
        using Cons.prems None chk by (simp add: Let_def)
      have "isl (fst (checkAccountState sol pk x))" for x
        using checkAccountState_stable [OF assms(1), of pk x s] chk Inl by simp
      then have here: "settled sol d tx pk" by (simp add: settled_def)
      show ?thesis
        using grown_refl here Cons.IH [OF run] by (rule step)
    next
      case (Inr state)
      show ?thesis
      proof (cases "tx_signatures tx")
        case Nil
        then have run: "discoverAccounts sol tx rest n s1 d = (n', s', d')"
          using Cons.prems None chk Inr by (simp add: Let_def)
        have here: "settled sol d tx pk" using Nil by (simp add: settled_def)
        show ?thesis
          using grown_refl here Cons.IH [OF run] by (rule step)
      next
        case (Cons sig sigs)
        define a where "a = discoveredAccount pk state sig (tx_slot tx)
              (case truthyNum (tx_blockTime tx) of
                 Some b \<Rightarrow> b | None \<Rightarrow> now (runtime sol) (world s) div 1000)
              (now (runtime sol) (world s1))"
        have a: "pubkey a = pk" by (simp add: a_def discoveredAccount_def)
        have run: "discoverAccounts sol tx rest (n + 1) s1 (upsertAccount a d) = (n', s', d')"
          using Cons.prems None chk Inr Cons by (simp add: Let_def a_def)
        have absent: "getAccount (pubkey a) d = None" using None a by simp
        have here: "settled sol (upsertAccount a d) tx pk"
          using tracked_upsert_new [OF absent] a by (simp add: settled_def)
        show ?thesis
          using grown_upsert [OF absent] here Cons.IH [OF run] by (rule step)
      qed
    qed
  qed
qed

lemma discoverAccounts_settled:
  assumes "\<forall>pk \<in> set pks. settled sol d tx pk"
  shows "\<exists>s'. discoverAccounts sol tx pks n s d = (n, s', d)"
  using assms
proof (induction pks arbitrary: s)
  case Nil
  show ?case by simp
next
  case (Cons pk rest)
  have rest: "\<exists>s'. discoverAccounts sol tx rest n x d = (n, s', d)" for x
    using Cons by simp
  have "pk \<in> tracked d \<or> (\<forall>x. isl (fst (checkAccountState sol pk x))) \<or> tx_signatures tx = []"
    using Cons.prems by (simp add: settled_def)
  then show ?case
  proof (elim disjE)
    assume "pk \<in> tracked d"
    then obtain existing where "getAccount pk d = Some existing"
      using getAccount_None [of pk d] by (cases "getAccount pk d") simp_all
    then show ?thesis using rest by simp
  next
    assume fail: "\<forall>x. isl (fst (checkAccountState sol pk x))"
    obtain r s1 where chk: "checkAccountState sol pk s = (r, s1)"
      by (cases "checkAccountState sol pk s")
    then obtain err where "r = Inl err" using fail [rule_format, of s] by (cases r) simp_all
    then show ?thesis
      using chk rest by (cases "getAccount pk d") (simp_all add: Let_def)
  next
    assume "tx_signatures tx = []"
    then show ?thesis
      using rest
      by (cases "getAccount pk d")
         (simp_all add: Let_def split: prod.splits sum.splits)
  qed
qed

lemma discoverAccounts_cursor:
  "bot_state (snd (snd (discoverAccounts sol tx pks n s d))) = bot_state d"
proof (induction pks arbitrary: n s d)
  case Nil
  show ?case by simp
next
  case (Cons pk rest)
  have new: "bot_state (snd (snd (discoverAccounts sol tx rest n1 s1 (upsertAccount a d)))) =
             bot_state d" if "getAccount (pubkey a) d = None" for n1 s1 a
    using Cons [of n1 s1 "upsertAccount a d"] upsert_new(2) [OF that] by simp
  have key: "pubkey (discoveredAccount pk st sg sl bt t) = pk" for st sg sl bt t
    by (simp add: discoveredAccount_def)
  show ?case
    using Cons new key
    by (simp add: Let_def split: option.splits prod.splits sum.splits list.splits)
qed

lemma discoverTransactions_cursor:
  "bot_state (snd (snd (discoverTransactions sol txs n s d))) = bot_state d"
proof (induction txs arbitrary: n s d)
  case Nil
  show ?case by simp
next
  case (Cons tx rest)
  obtain n1 s1 d1 where one:
    "discoverAccounts sol tx (extractCreatedAccounts (config sol) tx) n s d = (n1, s1, d1)"
    by (cases "discoverAccounts sol tx (extractCreatedAccounts (config sol) tx) n s d")
  have "bot_state d1 = bot_state d"
    using discoverAccounts_cursor [of sol tx "extractCreatedAccounts (config sol) tx" n s d] one
    by simp
  then show ?case using one Cons [of n1 s1 d1] by simp
qed

lemma discoverTransactions_facts:
  assumes "stableNode (connection sol)"
    and "discoverTransactions sol txs n s d = (n', s', d')"
  shows "grown d d' \<and>
         (\<forall>tx \<in> set txs. \<forall>pk \<in> set (extractCreatedAccounts (config sol) tx).
            settled sol d' tx pk)"
  using assms(2)
proof (induction txs arbitrary: n s d)
  case Nil
  then show ?case by (simp add: grown_refl)
next
  case (Cons tx rest)
  obtain n1 s1 d1 where one:
    "discoverAccounts sol tx (extractCreatedAccounts (config sol) tx) n s d = (n1, s1, d1)"
    by (cases "discoverAccounts sol tx (extractCreatedAccounts (config sol) tx) n s d")
  then have run: "discoverTransactions sol rest n1 s1 d1 = (n', s', d')"
    using Cons.prems by simp
  have first: "grown d d1"
    "\<forall>pk \<in> set (extractCreatedAccounts (config sol) tx). settled sol d1 tx pk"
    using discoverAccounts_facts [OF assms(1) one] by simp_all
  have later: "grown d1 d'"
    "\<forall>tx \<in> set rest. \<forall>pk \<in> set (extractCreatedAccounts (config sol) tx). settled sol d' tx pk"
    using Cons.IH [OF run] by simp_all
  have "\<forall>pk \<in> set (extractCreatedAccounts (config sol) tx). settled sol d' tx pk"
    using first(2) grown_tracked [OF later(1)] by (blast intro: settled_mono)
  then show ?case
    using grown_trans [OF first(1) later(1)] later(2) by simp
qed

lemma discoverTransactions_settled:
  assumes "\<forall>tx \<in> set txs. \<forall>pk \<in> set (extractCreatedAccounts (config sol) tx).
             settled sol d tx pk"
  shows "\<exists>s'. discoverTransactions sol txs n s d = (n, s', d)"
  using assms
proof (induction txs arbitrary: s)
  case Nil
  show ?case by simp
next
  case (Cons tx rest)
  obtain s1 where
    "discoverAccounts sol tx (extractCreatedAccounts (config sol) tx) n s d = (n, s1, d)"
    using discoverAccounts_settled [of "extractCreatedAccounts (config sol) tx" sol d tx n s]
      Cons.prems by auto
  then show ?case using Cons.IH [of s1] Cons.prems by simp
qed

lemma scan_lastSignature:
  assumes "scanSponsoredTransactions sol before limit s = (Inr (txs, Some sig), s1)"
  shows "sig \<noteq> []"
  using assms
  by (auto simp: scanSponsoredTransactions_def split: prod.splits sum.splits if_splits)

lemma cursor_set:
  "sig \<noteq> [] \<Longrightarrow> truthyStr (getLastProcessedSignature (setLastProcessedSignature sig d)) = Some sig"
  by (simp add: getLastProcessedSignature_def setLastProcessedSignature_def)

lemma grown_cursor: "grown d (setLastProcessedSignature sig d)"
  by (simp add: grown_def setLastProcessedSignature_def)

lemma discoverLoop_again:
  assumes "stableNode (connection sol)"
    and "discoverLoop fuel sol before n s d = Some (r, s', d')"
    and "before = truthyStr (getLastProcessedSignature d)"
  shows "grown d d' \<and>
         (\<forall>x. \<exists>r2 x'.
            discoverLoop (Suc fuel') sol (truthyStr (getLastProcessedSignature d')) 0 x d' =
              Some (r2, x', d') \<and>
            (r2 = Inr 0 \<or> (\<exists>err. r2 = Inl err)))"
  using assms(2,3)
proof (induction fuel arbitrary: before n s d)
  case 0
  then show ?case by simp
next
  case (Suc fuel)
  obtain res s1 where scan: "scanSponsoredTransactions sol before 100 s = (res, s1)"
    by (cases "scanSponsoredTransactions sol before 100 s")
  have again: "fst (scanSponsoredTransactions sol before 100 x) = res" for x
    using scanSponsoredTransactions_stable [OF assms(1), of before 100 x s] scan by simp
  show ?case
  proof (cases res)
    case (Inl err)
    then have end1: "d' = d" using Suc.prems(1) scan by simp
    have "\<exists>x'. discoverLoop (Suc fuel') sol before 0 x d = Some (Inl err, x', d)" for x
      using again [of x] Inl
      by (cases "scanSponsoredTransactions sol before 100 x") simp
    then show ?thesis
      unfolding end1 Suc.prems(2) [symmetric] by (simp add: grown_refl) blast
  next
    case (Inr page)
    obtain txs ls where page: "page = (txs, ls)" by (cases page)
    show ?thesis
    proof (cases "length txs = 0")
      case True
      then have end1: "d' = d" using Suc.prems(1) scan Inr page by simp
      have "\<exists>x'. discoverLoop (Suc fuel') sol before 0 x d = Some (Inr 0, x', d)" for x
        using again [of x] Inr page True
        by (cases "scanSponsoredTransactions sol before 100 x") simp
      then show ?thesis
        unfolding end1 Suc.prems(2) [symmetric] by (simp add: grown_refl) blast
    next
      case False
      obtain n2 s2 d2 where dt: "discoverTransactions sol txs n s1 d = (n2, s2, d2)"
        by (cases "discoverTransactions sol txs n s1 d")
      have facts: "grown d d2"
        "\<forall>tx \<in> set txs. \<forall>pk \<in> set (extractCreatedAccounts (config sol) tx).
           settled sol d2 tx pk"
        using discoverTransactions_facts [OF assms(1) dt] by simp_all
      have cursor: "bot_state d2 = bot_state d"
        using discoverTransactions_cursor [of sol txs n s1 d] dt by simp
      show ?thesis
      proof (cases ls)
        case None
        then have end1: "d' = d2" using Suc.prems(1) scan Inr page False dt by simp
        have same: "truthyStr (getLastProcessedSignature d2) = before"
          using cursor Suc.prems(2) by (simp add: getLastProcessedSignature_def)
        have "\<exists>x'. discoverLoop (Suc fuel') sol before 0 x d2 = Some (Inr 0, x', d2)" for x
        proof -
          obtain x1 where x1: "scanSponsoredTransactions sol before 100 x = (Inr (txs, None), x1)"
            using again [of x] Inr page None
            by (cases "scanSponsoredTransactions sol before 100 x") simp
          obtain x2 where "discoverTransactions sol txs 0 x1 d2 = (0, x2, d2)"
            using discoverTransactions_settled [OF facts(2), of 0 x1] by blast
          then show ?thesis using x1 False by simp
        qed
        then show ?thesis
          unfolding end1 same using facts(1) by simp blast
      next
        case (Some sig)
        have run: "discoverLoop fuel sol (Some sig) n2 s2 (setLastProcessedSignature sig d2) =
                   Some (r, s', d')"
          using Suc.prems(1) scan Inr page False dt Some by simp
        have "sig \<noteq> []"
          using scan Inr page Some scan_lastSignature by blast
        then have inv: "Some sig =
            truthyStr (getLastProcessedSignature (setLastProcessedSignature sig d2))"
          by (simp add: cursor_set)
        have ih: "grown (setLastProcessedSignature sig d2) d'"
          "\<forall>x. \<exists>r2 x'.
            discoverLoop (Suc fuel') sol (truthyStr (getLastProcessedSignature d')) 0 x d' =
              Some (r2, x', d') \<and>
            (r2 = Inr 0 \<or> (\<exists>err. r2 = Inl err))"
          using Suc.IH [OF run inv] by simp_all
        have "grown d d'"
          using grown_trans [OF facts(1) grown_trans [OF grown_cursor ih(1)]] .
        then show ?thesis using ih(2) by simp
      qed
    qed
  qed
qed

text \<open>
  Claim C9.  Let the node's answers not depend on the time of asking, and let a first run
  of \<open>discoverNewAccounts\<close> end (returning a count, or throwing what the scan threw) with
  the store \<open>d1\<close>.  The first run has only appended rows, each under a key the store did
  not hold: a store with distinct keys keeps distinct keys.  A second run from \<open>d1\<close>, from
  any gateway state, ends after one page, inserts nothing and leaves the whole store as it
  was; when it returns, it reports no new account.
\<close>

theorem discovery_idempotent:
  assumes "stableNode (connection sol)"
    and "discoverNewAccounts fuel sol s d = Some (r, s1, d1)"
  shows "(\<exists>new. sponsored_accounts d1 = sponsored_accounts d @ new) \<and>
         (distinct (map pubkey (sponsored_accounts d)) \<longrightarrow>
          distinct (map pubkey (sponsored_accounts d1))) \<and>
         (\<exists>r2 s3. discoverNewAccounts (Suc fuel') sol s2 d1 = Some (r2, s3, d1) \<and>
                  (r2 = Inr 0 \<or> (\<exists>err. r2 = Inl err)))"
proof -
  have "grown d d1 \<and>
         (\<forall>x. \<exists>r2 x'.
            discoverLoop (Suc fuel') sol (truthyStr (getLastProcessedSignature d1)) 0 x d1 =
              Some (r2, x', d1) \<and>
            (r2 = Inr 0 \<or> (\<exists>err. r2 = Inl err)))"
    using assms(2) unfolding discoverNewAccounts_def
    by (rule discoverLoop_again [OF assms(1) _ refl])
  then show ?thesis
    unfolding discoverNewAccounts_def grown_def by blast
qed

lemma history_page1:
  "scanSponsoredTransactions historySol None 100 start =
     (Inr ([creation ''s1''], Some ''s1''), afterPage)"
  by code_simp

lemma history_found:
  "fst (discoverTransactions historySol [creation ''s1''] 0 afterPage ledger) = 1"
  "fst (snd (discoverTransactions historySol [creation ''s1''] 0 afterPage ledger)) = afterFound"
  "map pubkey (sponsored_accounts
     (snd (snd (discoverTransactions historySol [creation ''s1''] 0 afterPage ledger)))) =
     [''A'', ''B'', ''C'', ''D'', ''Ns1'']"
  by code_simp+

lemma history_page2:
  "scanSponsoredTransactions historySol (Some ''s1'') 100 afterFound = (Inr ([], None), afterRun)"
  by code_simp

lemma history_run:
  "discoverNewAccounts 3 historySol start ledger =
     Some (Inr 1, afterRun,
       setLastProcessedSignature ''s1''
         (snd (snd (discoverTransactions historySol [creation ''s1''] 0 afterPage ledger))))"
proof -
  have cursor: "truthyStr (getLastProcessedSignature ledger) = None"
    by (simp add: getLastProcessedSignature_def ledger_def testDb_def)
  obtain d2 where d2: "discoverTransactions historySol [creation ''s1''] 0 afterPage ledger =
                       (1, afterFound, d2)"
    using history_found(1,2)
    by (cases "discoverTransactions historySol [creation ''s1''] 0 afterPage ledger") simp
  show ?thesis
    unfolding discoverNewAccounts_def cursor numeral_3_eq_3
    by (simp add: history_page1 history_page2 d2 del: discoverTransactions.simps)
qed

theorem discovery_idempotent_witness:
  "stableNode (connection historySol) \<and>
   (\<exists>s1 d1.
      discoverNewAccounts 3 historySol start ledger = Some (Inr 1, s1, d1) \<and>
      map pubkey (sponsored_accounts ledger) = [''A'', ''B'', ''C'', ''D''] \<and>
      map pubkey (sponsored_accounts d1) = [''A'', ''B'', ''C'', ''D'', ''Ns1''] \<and>
      (\<exists>r2 s3. discoverNewAccounts (Suc 0) historySol s1 d1 = Some (r2, s3, d1) \<and>
               (r2 = Inr 0 \<or> (\<exists>err. r2 = Inl err))))"
proof -
  have stable: "stableNode (connection historySol)"
    by (simp add: stableNode_def historySol_def historyConnection_def)
  let ?d1 = "setLastProcessedSignature ''s1''
         (snd (snd (discoverTransactions historySol [creation ''s1''] 0 afterPage ledger)))"
  have before: "map pubkey (sponsored_accounts ledger) = [''A'', ''B'', ''C'', ''D'']"
    by code_simp
  have keys: "map pubkey (sponsored_accounts ?d1) = [''A'', ''B'', ''C'', ''D'', ''Ns1'']"
    using history_found(3) by (simp add: setLastProcessedSignature_def)
  have again: "\<exists>r2 s3. discoverNewAccounts (Suc 0) historySol afterRun ?d1 = Some (r2, s3, ?d1) \<and>
               (r2 = Inr 0 \<or> (\<exists>err. r2 = Inl err))"
    using discovery_idempotent [OF stable history_run, of 0 afterRun] by simp
  have "\<exists>s1 d1.
      discoverNewAccounts 3 historySol start ledger = Some (Inr 1, s1, d1) \<and>
      map pubkey (sponsored_accounts ledger) = [''A'', ''B'', ''C'', ''D''] \<and>
      map pubkey (sponsored_accounts d1) = [''A'', ''B'', ''C'', ''D'', ''Ns1''] \<and>
      (\<exists>r2 s3. discoverNewAccounts (Suc 0) historySol s1 d1 = Some (r2, s3, d1) \<and>
               (r2 = Inr 0 \<or> (\<exists>err. r2 = Inl err)))"
    by (intro exI [of _ afterRun] exI [of _ ?d1] conjI) (rule history_run before keys again)+
  then show ?thesis using stable by simp
qed

end
